theory Spec2Isabelle
  imports Main
begin

section \<open>OrtValue: the type-erased value container of ml\_value.h\<close>

text \<open>
  The development embeds \<^verbatim>\<open>struct OrtValue\<close> of
  \<^verbatim>\<open>include/onnxruntime/core/framework/ml_value.h\<close>. An OrtValue has three
  members: \<^verbatim>\<open>std::shared_ptr<void> data_\<close>, \<^verbatim>\<open>MLDataType type_\<close> and
  \<^verbatim>\<open>FencePtr fence_\<close>. Objects have addresses (the assignment operators compare
  \<^verbatim>\<open>this\<close> with \<^verbatim>\<open>&v\<close>), and the payload is shared through reference-counted
  control blocks, so the state is an explicit store: the members of the object at every
  address, the control blocks, and the log of the deleter calls made so far.

  Isabelle does not accept a name that ends in an underscore, so the members
  \<^verbatim>\<open>data_\<close>, \<^verbatim>\<open>type_\<close>, \<^verbatim>\<open>fence_\<close> are the fields \<open>data_m\<close>, \<open>type_m\<close>,
  \<open>fence_m\<close>.
\<close>

subsection \<open>Pointers and the collaborators declared outside the header\<close>

type_synonym addr = nat

text \<open>A raw pointer (\<^verbatim>\<open>void*\<close>, \<^verbatim>\<open>T*\<close>, \<^verbatim>\<open>IFence*\<close>); \<open>None\<close> is \<^verbatim>\<open>nullptr\<close>.\<close>

type_synonym pointer = "addr option"

text \<open>
  \<^verbatim>\<open>onnxruntime::DeleteFunc\<close> is declared in data\_types.h, which is not among the
  sources. A deleter is identified by the address of its function; what the function does
  with the pointer it is given is outside the container, so a call is only recorded.
\<close>

type_synonym DeleteFunc = nat

text \<open>
  Modelled from the spec: \<^verbatim>\<open>onnxruntime::DataTypeImpl\<close> (data\_types.h is not among
  the sources). The spec's Type Identity Registry issues one immutable, process-lifetime
  object per payload kind, compared by address. A payload kind is registered as a dense
  tensor, a tensor sequence, a sparse tensor, or another kind, and a type outside a family
  fails that family's capability predicate (a sparse tensor is not a tensor sequence). An
  object is its address together with the family it is registered in; the three
  predicates, which the header calls as the virtual functions \<^verbatim>\<open>IsTensorType()\<close>,
  \<^verbatim>\<open>IsTensorSequenceType()\<close> and \<^verbatim>\<open>IsSparseTensorType()\<close>, ask for that family.
\<close>

datatype type_family = Tensor_family | TensorSeq_family | SparseTensor_family | Other_family

record DataTypeImpl =
  type_addr :: addr
  family :: type_family

definition IsTensorType :: "DataTypeImpl \<Rightarrow> bool" where
  "IsTensorType t = (family t = Tensor_family)"

definition IsTensorSequenceType :: "DataTypeImpl \<Rightarrow> bool" where
  "IsTensorSequenceType t = (family t = TensorSeq_family)"

definition IsSparseTensorType :: "DataTypeImpl \<Rightarrow> bool" where
  "IsSparseTensorType t = (family t = SparseTensor_family)"

text \<open>\<^verbatim>\<open>MLDataType\<close> is \<^verbatim>\<open>const DataTypeImpl*\<close>; \<open>None\<close> is \<^verbatim>\<open>nullptr\<close>.\<close>

type_synonym MLDataType = "DataTypeImpl option"

text \<open>
  \<^verbatim>\<open>FencePtr\<close> is \<^verbatim>\<open>std::shared_ptr<IFence>\<close> and \<^verbatim>\<open>Fence_t\<close> is \<^verbatim>\<open>IFence*\<close>
  (fence.h, not among the sources). The header only copies the handle and reads the raw
  pointer it holds with \<^verbatim>\<open>get()\<close>, so a handle is the pointer it holds; the reference
  count of the fence object is not part of the model.
\<close>

type_synonym Fence_t = pointer
type_synonym FencePtr = pointer

subsection \<open>std::shared\_ptr<void>\<close>

text \<open>
  A control block owns a pointer together with a deleter and counts the handles that share
  it. A handle is empty (\<open>None\<close>) or names a control block.

  \<^verbatim>\<open>std::shared_ptr<void> d(pData, deleter)\<close> always creates a control block with
  \<^verbatim>\<open>use_count() == 1\<close>, also when \<^verbatim>\<open>pData\<close> is null: the handle then owns a null
  pointer and is not empty, and the deleter is still called, with the null pointer, when
  the last handle goes away. \<^verbatim>\<open>std::shared_ptr<void> d(nullptr)\<close> is the empty handle.
\<close>

record control_block =
  owned_ptr :: pointer
  owned_deleter :: DeleteFunc
  use_count :: nat

type_synonym shared_ptr = "nat option"

record OrtValue =
  data_m :: shared_ptr
  type_m :: MLDataType
  fence_m :: FencePtr

text \<open>
  The store. \<open>objs s a\<close> are the members of the object at address \<open>a\<close>; the control
  blocks created so far are numbered \<open>0 ..< fresh s\<close>; \<open>calls s\<close> lists the deleter
  calls made so far, oldest first, each with the pointer it was given.
\<close>

record heap =
  objs :: "addr \<Rightarrow> OrtValue"
  blocks :: "nat \<Rightarrow> control_block"
  fresh :: nat
  calls :: "(DeleteFunc \<times> pointer) list"

text \<open>\<^verbatim>\<open>d.get()\<close>: the stored pointer, null for the empty handle.\<close>

definition sp_get :: "heap \<Rightarrow> shared_ptr \<Rightarrow> pointer" where
  "sp_get s r = (case r of None \<Rightarrow> None | Some c \<Rightarrow> owned_ptr (blocks s c))"

text \<open>\<^verbatim>\<open>std::shared_ptr<void> d(pData, deleter)\<close>: a new control block, one owner.\<close>

definition sp_new :: "heap \<Rightarrow> pointer \<Rightarrow> DeleteFunc \<Rightarrow> shared_ptr \<times> heap" where
  "sp_new s p d =
     (Some (fresh s),
      s\<lparr>blocks := (blocks s)(fresh s := \<lparr>owned_ptr = p, owned_deleter = d, use_count = 1\<rparr>),
        fresh := Suc (fresh s)\<rparr>)"

text \<open>Copying a handle adds an owner.\<close>

definition sp_acquire :: "heap \<Rightarrow> shared_ptr \<Rightarrow> heap" where
  "sp_acquire s r =
     (case r of
        None \<Rightarrow> s
      | Some c \<Rightarrow>
          s\<lparr>blocks := (blocks s)(c := (blocks s c)\<lparr>use_count := Suc (use_count (blocks s c))\<rparr>)\<rparr>)"

text \<open>
  Destroying a handle removes an owner; the handle that finds the count at one is the last
  and calls the deleter on the owned pointer.
\<close>

definition sp_release :: "heap \<Rightarrow> shared_ptr \<Rightarrow> heap" where
  "sp_release s r =
     (case r of
        None \<Rightarrow> s
      | Some c \<Rightarrow>
          (if use_count (blocks s c) = 1
           then s\<lparr>blocks := (blocks s)(c := (blocks s c)\<lparr>use_count := 0\<rparr>),
                  calls := calls s @ [(owned_deleter (blocks s c), owned_ptr (blocks s c))]\<rparr>
           else s\<lparr>blocks := (blocks s)(c := (blocks s c)\<lparr>use_count := use_count (blocks s c) - 1\<rparr>)\<rparr>))"

text \<open>
  \<^verbatim>\<open>std::atomic_store(&data_, r)\<close> takes \<^verbatim>\<open>r\<close> by value (a copy, so one more owner),
  swaps it into \<^verbatim>\<open>data_\<close>, and destroys the handle that was there before on return.
\<close>

definition atomic_store :: "heap \<Rightarrow> addr \<Rightarrow> shared_ptr \<Rightarrow> heap" where
  "atomic_store s this r =
     (let s1 = sp_acquire s r;
          old = data_m (objs s1 this);
          s2 = s1\<lparr>objs := (objs s1)(this := (objs s1 this)\<lparr>data_m := r\<rparr>)\<rparr>
      in sp_release s2 old)"

subsection \<open>Construction, destruction, assignment\<close>

text \<open>\<^verbatim>\<open>OrtValue() : data_(nullptr) {}\<close>, with \<^verbatim>\<open>type_{nullptr}\<close> and an empty fence.\<close>

definition OrtValue_default :: "heap \<Rightarrow> addr \<Rightarrow> heap" where
  "OrtValue_default s this =
     s\<lparr>objs := (objs s)(this := \<lparr>data_m = None, type_m = None, fence_m = None\<rparr>)\<rparr>"

text \<open>
  \<^verbatim>\<open>Init(pData, type, deleter)\<close>: the local handle \<^verbatim>\<open>d\<close> is created, stored, the type
  is recorded, and \<^verbatim>\<open>d\<close> is destroyed at the end of the scope.
\<close>

definition Init :: "heap \<Rightarrow> addr \<Rightarrow> pointer \<Rightarrow> MLDataType \<Rightarrow> DeleteFunc \<Rightarrow> heap" where
  "Init s this pData type deleter =
     (let (d, s1) = sp_new s pData deleter;
          s2 = atomic_store s1 this d;
          s3 = s2\<lparr>objs := (objs s2)(this := (objs s2 this)\<lparr>type_m := type\<rparr>)\<rparr>
      in sp_release s3 d)"

text \<open>\<^verbatim>\<open>OrtValue(pData, type, deleter)\<close>: the members are default-initialised, then Init.\<close>

definition OrtValue_init :: "heap \<Rightarrow> addr \<Rightarrow> pointer \<Rightarrow> MLDataType \<Rightarrow> DeleteFunc \<Rightarrow> heap" where
  "OrtValue_init s this pData type deleter = Init (OrtValue_default s this) this pData type deleter"

text \<open>
  \<^verbatim>\<open>OrtValue(const OrtValue& v) : type_(v.type_), fence_(v.fence_)\<close>: \<^verbatim>\<open>data_\<close> starts
  empty and receives \<^verbatim>\<open>v.data_\<close> through the atomic store.
\<close>

definition OrtValue_copy :: "heap \<Rightarrow> addr \<Rightarrow> addr \<Rightarrow> heap" where
  "OrtValue_copy s this v =
     (let s1 = s\<lparr>objs := (objs s)(this :=
                 \<lparr>data_m = None, type_m = type_m (objs s v), fence_m = fence_m (objs s v)\<rparr>)\<rparr>
      in atomic_store s1 this (data_m (objs s1 v)))"

text \<open>
  \<^verbatim>\<open>~OrtValue()\<close> stores the empty handle \<^verbatim>\<open>d(nullptr)\<close>, which releases the payload
  handle; the members destroyed afterwards hold no payload any more.
\<close>

definition OrtValue_dtor :: "heap \<Rightarrow> addr \<Rightarrow> heap" where
  "OrtValue_dtor s this = atomic_store s this None"

text \<open>\<^verbatim>\<open>operator=(const OrtValue& v)\<close>.\<close>

definition copy_assign :: "heap \<Rightarrow> addr \<Rightarrow> addr \<Rightarrow> heap" where
  "copy_assign s this v =
     (if this \<noteq> v then
        (let s1 = atomic_store s this (data_m (objs s v));
             s2 = s1\<lparr>objs := (objs s1)(this := (objs s1 this)\<lparr>type_m := type_m (objs s1 v)\<rparr>)\<rparr>
         in s2\<lparr>objs := (objs s2)(this := (objs s2 this)\<lparr>fence_m := fence_m (objs s2 v)\<rparr>)\<rparr>)
      else s)"

text \<open>\<^verbatim>\<open>operator=(OrtValue&& v)\<close>: the body is the one of the copy assignment.\<close>

definition move_assign :: "heap \<Rightarrow> addr \<Rightarrow> addr \<Rightarrow> heap" where
  "move_assign s this v =
     (if this \<noteq> v then
        (let s1 = atomic_store s this (data_m (objs s v));
             s2 = s1\<lparr>objs := (objs s1)(this := (objs s1 this)\<lparr>type_m := type_m (objs s1 v)\<rparr>)\<rparr>
         in s2\<lparr>objs := (objs s2)(this := (objs s2 this)\<lparr>fence_m := fence_m (objs s2 v)\<rparr>)\<rparr>)
      else s)"

subsection \<open>Queries\<close>

text \<open>\<^verbatim>\<open>return d && type_;\<close> where a handle converts to true when its pointer is not null.\<close>

definition IsAllocated :: "heap \<Rightarrow> addr \<Rightarrow> bool" where
  "IsAllocated s this =
     (let d = data_m (objs s this) in sp_get s d \<noteq> None \<and> type_m (objs s this) \<noteq> None)"

definition IsTensor :: "heap \<Rightarrow> addr \<Rightarrow> bool" where
  "IsTensor s this =
     (case type_m (objs s this) of None \<Rightarrow> False | Some t \<Rightarrow> IsTensorType t)"

definition IsTensorSequence :: "heap \<Rightarrow> addr \<Rightarrow> bool" where
  "IsTensorSequence s this =
     (case type_m (objs s this) of None \<Rightarrow> False | Some t \<Rightarrow> IsTensorSequenceType t)"

definition IsSparseTensor :: "heap \<Rightarrow> addr \<Rightarrow> bool" where
  "IsSparseTensor s this =
     (case type_m (objs s this) of None \<Rightarrow> False | Some t \<Rightarrow> IsSparseTensorType t)"

definition Type :: "heap \<Rightarrow> addr \<Rightarrow> MLDataType" where
  "Type s this = type_m (objs s this)"

definition Fence :: "heap \<Rightarrow> addr \<Rightarrow> Fence_t" where
  "Fence s this = fence_m (objs s this)"

definition SetFence :: "heap \<Rightarrow> addr \<Rightarrow> FencePtr \<Rightarrow> heap" where
  "SetFence s this fence = s\<lparr>objs := (objs s)(this := (objs s this)\<lparr>fence_m := fence\<rparr>)\<rparr>"

definition ShareFenceWith :: "heap \<Rightarrow> addr \<Rightarrow> addr \<Rightarrow> heap" where
  "ShareFenceWith s this v =
     s\<lparr>objs := (objs s)(this := (objs s this)\<lparr>fence_m := fence_m (objs s v)\<rparr>)\<rparr>"

subsection \<open>Typed access\<close>

text \<open>
  Modelled from the spec: \<^verbatim>\<open>ORT_ENFORCE(cond, ...)\<close> (common.h is not among the sources)
  raises at once when the condition is false; the spec calls the failure TypeMismatch and
  has it carry what was expected and the identity found. What was expected is an exact
  identity in the primary templates and a family in the six specialisations.

  \<^verbatim>\<open>Get\<close> returns a reference, \<^verbatim>\<open>*static_cast<T*>(d.get())\<close>. When the pointer is
  null there is no object to refer to and C++ leaves the result undefined; the model
  reports this as \<open>NullDereference\<close> instead of choosing an address. \<^verbatim>\<open>GetMutable\<close>
  returns the pointer itself, null or not.
\<close>

datatype expected = Exact MLDataType | ATensor | ATensorSeq | ASparseTensor

datatype error = TypeMismatch expected MLDataType | NullDereference

text \<open>
  The primary templates. \<^verbatim>\<open>DataTypeImpl::GetType<T>()\<close> is declared in data\_types.h;
  it is the parameter \<open>GetType\<close>, and \<open>T\<close> ranges over the types the template is
  instantiated at.
\<close>

definition Get :: "('T \<Rightarrow> MLDataType) \<Rightarrow> 'T \<Rightarrow> heap \<Rightarrow> addr \<Rightarrow> error + addr" where
  "Get GetType T s this =
     (if GetType T = type_m (objs s this) then
        (case sp_get s (data_m (objs s this)) of
           None \<Rightarrow> Inl NullDereference
         | Some p \<Rightarrow> Inr p)
      else Inl (TypeMismatch (Exact (GetType T)) (type_m (objs s this))))"

definition GetMutable :: "('T \<Rightarrow> MLDataType) \<Rightarrow> 'T \<Rightarrow> heap \<Rightarrow> addr \<Rightarrow> error + pointer" where
  "GetMutable GetType T s this =
     (if GetType T = type_m (objs s this) then Inr (sp_get s (data_m (objs s this)))
      else Inl (TypeMismatch (Exact (GetType T)) (type_m (objs s this))))"

text \<open>The specialisations for Tensor, TensorSeq and SparseTensor.\<close>

definition Get_Tensor :: "heap \<Rightarrow> addr \<Rightarrow> error + addr" where
  "Get_Tensor s this =
     (if IsTensor s this then
        (case sp_get s (data_m (objs s this)) of
           None \<Rightarrow> Inl NullDereference
         | Some p \<Rightarrow> Inr p)
      else Inl (TypeMismatch ATensor (type_m (objs s this))))"

definition GetMutable_Tensor :: "heap \<Rightarrow> addr \<Rightarrow> error + pointer" where
  "GetMutable_Tensor s this =
     (if IsTensor s this then Inr (sp_get s (data_m (objs s this)))
      else Inl (TypeMismatch ATensor (type_m (objs s this))))"

definition Get_TensorSeq :: "heap \<Rightarrow> addr \<Rightarrow> error + addr" where
  "Get_TensorSeq s this =
     (if IsTensorSequence s this then
        (case sp_get s (data_m (objs s this)) of
           None \<Rightarrow> Inl NullDereference
         | Some p \<Rightarrow> Inr p)
      else Inl (TypeMismatch ATensorSeq (type_m (objs s this))))"

definition GetMutable_TensorSeq :: "heap \<Rightarrow> addr \<Rightarrow> error + pointer" where
  "GetMutable_TensorSeq s this =
     (if IsTensorSequence s this then Inr (sp_get s (data_m (objs s this)))
      else Inl (TypeMismatch ATensorSeq (type_m (objs s this))))"

definition Get_SparseTensor :: "heap \<Rightarrow> addr \<Rightarrow> error + addr" where
  "Get_SparseTensor s this =
     (if IsSparseTensor s this then
        (case sp_get s (data_m (objs s this)) of
           None \<Rightarrow> Inl NullDereference
         | Some p \<Rightarrow> Inr p)
      else Inl (TypeMismatch ASparseTensor (type_m (objs s this))))"

definition GetMutable_SparseTensor :: "heap \<Rightarrow> addr \<Rightarrow> error + pointer" where
  "GetMutable_SparseTensor s this =
     (if IsSparseTensor s this then Inr (sp_get s (data_m (objs s this)))
      else Inl (TypeMismatch ASparseTensor (type_m (objs s this))))"

subsection \<open>The member functions as calls\<close>

text \<open>
  Every member function that can be called on a constructed container, with its arguments;
  \<open>exec\<close> gives the store the call leaves behind. The queries and the typed accessors
  are \<^verbatim>\<open>const\<close> or only read the members, so they leave the store as it is (whether
  they return or raise).
\<close>

datatype 'T call =
    Call_Init pointer MLDataType DeleteFunc
  | Call_IsAllocated
  | Call_copy_assign addr
  | Call_move_assign addr
  | Call_Get 'T
  | Call_GetMutable 'T
  | Call_Get_Tensor
  | Call_GetMutable_Tensor
  | Call_Get_TensorSeq
  | Call_GetMutable_TensorSeq
  | Call_Get_SparseTensor
  | Call_GetMutable_SparseTensor
  | Call_IsTensor
  | Call_IsTensorSequence
  | Call_IsSparseTensor
  | Call_Type
  | Call_Fence
  | Call_SetFence FencePtr
  | Call_ShareFenceWith addr

fun exec :: "heap \<Rightarrow> addr \<Rightarrow> 'T call \<Rightarrow> heap" where
  "exec s this (Call_Init pData type deleter) = Init s this pData type deleter"
| "exec s this (Call_copy_assign v) = copy_assign s this v"
| "exec s this (Call_move_assign v) = move_assign s this v"
| "exec s this (Call_SetFence fence) = SetFence s this fence"
| "exec s this (Call_ShareFenceWith v) = ShareFenceWith s this v"
| "exec s this _ = s"

fun is_assignment :: "'T call \<Rightarrow> bool" where
  "is_assignment (Call_copy_assign v) = True"
| "is_assignment (Call_move_assign v) = True"
| "is_assignment _ = False"

fun is_Init :: "'T call \<Rightarrow> bool" where
  "is_Init (Call_Init pData type deleter) = True"
| "is_Init _ = False"

subsection \<open>Runs that copy and destroy\<close>

text \<open>
  A program obtains a copy of the container at \<open>v\<close> in a new container at \<open>this\<close> in
  three ways: \<^verbatim>\<open>OrtValue c(v);\<close>, or \<^verbatim>\<open>OrtValue c; c = v;\<close>, or
  \<^verbatim>\<open>OrtValue c; c = std::move(v);\<close>.
\<close>

datatype copy_by = By_constructor | By_copy_assign | By_move_assign

fun make_copy :: "heap \<Rightarrow> copy_by \<Rightarrow> addr \<Rightarrow> addr \<Rightarrow> heap" where
  "make_copy s By_constructor this v = OrtValue_copy s this v"
| "make_copy s By_copy_assign this v = copy_assign (OrtValue_default s this) this v"
| "make_copy s By_move_assign this v = move_assign (OrtValue_default s this) this v"

text \<open>
  \<open>copy_all s cs\<close> makes, for each step \<open>(how, this, v)\<close> of \<open>cs\<close> in turn, a new
  container at \<open>this\<close> as a copy of the one at \<open>v\<close>; \<open>destroy_all s as\<close> runs the
  destructor on the containers at \<open>as\<close>, in that order.
\<close>

fun copy_all :: "heap \<Rightarrow> (copy_by \<times> addr \<times> addr) list \<Rightarrow> heap" where
  "copy_all s [] = s"
| "copy_all s ((how, this, v) # cs) = copy_all (make_copy s how this v) cs"

fun destroy_all :: "heap \<Rightarrow> addr list \<Rightarrow> heap" where
  "destroy_all s [] = s"
| "destroy_all s (a # as) = destroy_all (OrtValue_dtor s a) as"

text \<open>
  \<open>copies_of os cs\<close>: starting from the containers at \<open>os\<close>, every step of \<open>cs\<close>
  makes its copy at an address not in use by them and takes it from one of them or from
  an earlier copy. \<open>copy_addrs cs\<close> are the addresses of the copies.
\<close>

fun copies_of :: "addr list \<Rightarrow> (copy_by \<times> addr \<times> addr) list \<Rightarrow> bool" where
  "copies_of os [] = True"
| "copies_of os ((how, this, v) # cs) =
     (this \<notin> set os \<and> v \<in> set os \<and> copies_of (this # os) cs)"

fun copy_addrs :: "(copy_by \<times> addr \<times> addr) list \<Rightarrow> addr list" where
  "copy_addrs [] = []"
| "copy_addrs ((how, this, v) # cs) = this # copy_addrs cs"

text \<open>
  A handle held in the store refers to a control block that has been created (or is
  empty).
\<close>

definition handle_exists :: "heap \<Rightarrow> shared_ptr \<Rightarrow> bool" where
  "handle_exists s r = (case r of None \<Rightarrow> True | Some c \<Rightarrow> c < fresh s)"

text \<open>Every handle held by a container refers to a control block that has been created.\<close>

definition handles_ok :: "heap \<Rightarrow> bool" where
  "handles_ok s = (\<forall>a. handle_exists s (data_m (objs s a)))"

text \<open>
  The precondition the spec puts on Init, and the first invariant of its data model: the
  payload and the identity of a container are both null or both non-null.
\<close>

definition well_formed :: "heap \<Rightarrow> addr \<Rightarrow> bool" where
  "well_formed s this =
     ((sp_get s (data_m (objs s this)) = None) = (type_m (objs s this) = None))"

text \<open>
  The invariant of sharing: the containers at \<open>os\<close> are distinct, each holds a handle
  to the control block \<open>c\<close>, and the block counts exactly them.
\<close>

definition owned_by :: "heap \<Rightarrow> nat \<Rightarrow> addr list \<Rightarrow> bool" where
  "owned_by s c os =
     (distinct os \<and> (\<forall>a \<in> set os. data_m (objs s a) = Some c) \<and> use_count (blocks s c) = length os)"

subsection \<open>Concrete stores and identities\<close>

text \<open>The store of a program that has not yet created a container or a payload.\<close>

definition heap0 :: heap where
  "heap0 =
     \<lparr>objs = (\<lambda>a. \<lparr>data_m = None, type_m = None, fence_m = None\<rparr>),
      blocks = (\<lambda>c. \<lparr>owned_ptr = None, owned_deleter = 0, use_count = 0\<rparr>),
      fresh = 0,
      calls = []\<rparr>"

text \<open>Three identities: a dense tensor, a sparse tensor, and a type in no family.\<close>

definition tensor_float :: DataTypeImpl where
  "tensor_float =
     \<lparr>type_addr = 1, family = Tensor_family\<rparr>"

definition sparse_int32 :: DataTypeImpl where
  "sparse_int32 =
     \<lparr>type_addr = 2, family = SparseTensor_family\<rparr>"

definition map_string :: DataTypeImpl where
  "map_string =
     \<lparr>type_addr = 3, family = Other_family\<rparr>"

text \<open>
  The types a program instantiates the primary templates at, numbered, and an assignment
  of identities to them for the examples.
\<close>

definition GetType_ex :: "nat \<Rightarrow> MLDataType" where
  "GetType_ex T = (if T = 1 then Some tensor_float else if T = 2 then Some sparse_int32 else Some map_string)"

section \<open>Effects of the operations on the store\<close>

lemmas run_defs = OrtValue_init_def OrtValue_default_def OrtValue_copy_def OrtValue_dtor_def
  Init_def copy_assign_def move_assign_def SetFence_def ShareFenceWith_def
  sp_new_def sp_get_def atomic_store_def sp_acquire_def sp_release_def heap0_def Let_def
  tensor_float_def sparse_int32_def map_string_def GetType_ex_def
  IsTensorType_def IsTensorSequenceType_def IsSparseTensorType_def

subsection \<open>Handles\<close>

lemma sp_acquire_objs: "objs (sp_acquire s r) = objs s"
  by (simp add: sp_acquire_def split: option.splits)

lemma sp_release_objs: "objs (sp_release s r) = objs s"
  by (simp add: sp_release_def split: option.splits)

lemma sp_acquire_fresh: "fresh (sp_acquire s r) = fresh s"
  by (simp add: sp_acquire_def split: option.splits)

lemma sp_release_fresh: "fresh (sp_release s r) = fresh s"
  by (simp add: sp_release_def split: option.splits)

lemma sp_acquire_owned:
  "owned_ptr (blocks (sp_acquire s r) c) = owned_ptr (blocks s c)"
  "owned_deleter (blocks (sp_acquire s r) c) = owned_deleter (blocks s c)"
  by (simp_all add: sp_acquire_def split: option.splits)

lemma sp_release_owned:
  "owned_ptr (blocks (sp_release s r) c) = owned_ptr (blocks s c)"
  "owned_deleter (blocks (sp_release s r) c) = owned_deleter (blocks s c)"
  by (simp_all add: sp_release_def split: option.splits)

lemma atomic_store_objs:
  "objs (atomic_store s this r) = (objs s)(this := (objs s this)\<lparr>data_m := r\<rparr>)"
  by (simp add: atomic_store_def Let_def sp_release_objs sp_acquire_objs)

lemma atomic_store_fresh: "fresh (atomic_store s this r) = fresh s"
  by (simp add: atomic_store_def Let_def sp_release_fresh sp_acquire_fresh)

lemma atomic_store_owned:
  "owned_ptr (blocks (atomic_store s this r) c) = owned_ptr (blocks s c)"
  "owned_deleter (blocks (atomic_store s this r) c) = owned_deleter (blocks s c)"
  by (simp_all add: atomic_store_def Let_def sp_release_owned sp_acquire_owned)

text \<open>The pointer a handle holds never changes: the operations only move the counts.\<close>

lemma sp_get_atomic_store: "sp_get (atomic_store s this r) h = sp_get s h"
  by (simp add: sp_get_def atomic_store_owned split: option.splits)

lemma sp_get_objs_update: "sp_get (s\<lparr>objs := f\<rparr>) h = sp_get s h"
  by (simp add: sp_get_def split: option.splits)

subsection \<open>Copying and assigning\<close>

lemma copy_assign_objs: "objs (copy_assign s this v) = (objs s)(this := objs s v)"
  by (cases "this = v") (auto simp: copy_assign_def Let_def atomic_store_objs fun_eq_iff)

lemma copy_assign_sp_get: "sp_get (copy_assign s this v) h = sp_get s h"
  by (simp add: copy_assign_def Let_def sp_get_objs_update sp_get_atomic_store)

lemma copy_assign_fresh: "fresh (copy_assign s this v) = fresh s"
  by (simp add: copy_assign_def Let_def atomic_store_fresh)

lemma move_assign_is_copy_assign: "move_assign s this v = copy_assign s this v"
  by (simp add: move_assign_def copy_assign_def)

lemma move_assign_objs: "objs (move_assign s this v) = (objs s)(this := objs s v)"
  by (simp add: move_assign_is_copy_assign copy_assign_objs)

lemma OrtValue_copy_objs:
  "this \<noteq> v \<Longrightarrow> objs (OrtValue_copy s this v) = (objs s)(this := objs s v)"
  by (auto simp: OrtValue_copy_def Let_def atomic_store_objs fun_eq_iff)

lemma OrtValue_copy_objs_other:
  "this \<noteq> b \<Longrightarrow> objs (OrtValue_copy s this v) b = objs s b"
  by (simp add: OrtValue_copy_def Let_def atomic_store_objs)

lemma OrtValue_copy_sp_get: "sp_get (OrtValue_copy s this v) h = sp_get s h"
  by (simp add: OrtValue_copy_def Let_def sp_get_objs_update sp_get_atomic_store)

lemma OrtValue_copy_fresh: "fresh (OrtValue_copy s this v) = fresh s"
  by (simp add: OrtValue_copy_def Let_def atomic_store_fresh)

lemma OrtValue_copy_calls:
  "this \<noteq> v \<Longrightarrow> calls (OrtValue_copy s this v) = calls s"
  by (simp add: OrtValue_copy_def Let_def atomic_store_def sp_acquire_def sp_release_def
      split: option.splits)

lemma copy_step:
  assumes "this \<noteq> v" and "data_m (objs s v) = Some c"
  shows "blocks (OrtValue_copy s this v) =
           (blocks s)(c := (blocks s c)\<lparr>use_count := Suc (use_count (blocks s c))\<rparr>)"
  using assms
  by (simp add: OrtValue_copy_def Let_def atomic_store_def sp_acquire_def sp_release_def)

text \<open>
  A default-constructed container that is then assigned from \<open>v\<close> leaves the store that
  copy construction from \<open>v\<close> leaves.
\<close>

lemma assign_to_default:
  assumes "this \<noteq> v"
  shows "copy_assign (OrtValue_default s this) this v = OrtValue_copy s this v"
  using assms
  by (simp add: copy_assign_def OrtValue_copy_def OrtValue_default_def Let_def atomic_store_def
      sp_acquire_def sp_release_def split: option.splits)

lemma make_copy_eq:
  assumes "this \<noteq> v"
  shows "make_copy s how this v = OrtValue_copy s this v"
  using assms by (cases how) (simp_all add: move_assign_is_copy_assign assign_to_default)

lemma assign_step:
  assumes "this \<noteq> v" and "data_m (objs s v) = Some c" and "data_m (objs s this) \<noteq> Some c"
  shows "use_count (blocks (copy_assign s this v) c) = Suc (use_count (blocks s c))"
  using assms
  by (simp add: copy_assign_def Let_def atomic_store_def sp_acquire_def sp_release_def
      split: option.splits)

lemma copied_objs:
  assumes "s' = copy_assign s dst src \<or> (dst \<noteq> src \<and> s' = OrtValue_copy s dst src)"
  shows "objs s' = (objs s)(dst := objs s src)"
  using assms by (auto simp: copy_assign_objs OrtValue_copy_objs)

lemma copied_sp_get:
  assumes "s' = copy_assign s dst src \<or> (dst \<noteq> src \<and> s' = OrtValue_copy s dst src)"
  shows "sp_get s' h = sp_get s h"
  using assms by (auto simp: copy_assign_sp_get OrtValue_copy_sp_get)

subsection \<open>Init and the destructor\<close>

lemma Init_objs:
  "objs (Init s this p t d) = (objs s)(this := (objs s this)\<lparr>data_m := Some (fresh s), type_m := t\<rparr>)"
  by (simp add: Init_def sp_new_def Let_def atomic_store_objs sp_release_objs fun_eq_iff)

lemma OrtValue_init_objs:
  "objs (OrtValue_init s this p t d) =
     (objs s)(this := \<lparr>data_m = Some (fresh s), type_m = t, fence_m = None\<rparr>)"
  by (simp add: OrtValue_init_def Init_objs OrtValue_default_def fun_eq_iff)

text \<open>
  After Init the new control block has exactly one owner, the container: the local handle
  of Init is gone again. The handle the container held before must not already name the
  block that Init is about to create.
\<close>

lemma atomic_store_acquired:
  assumes "data_m (objs s this) \<noteq> Some c"
  shows "blocks (atomic_store s this (Some c)) c =
           (blocks s c)\<lparr>use_count := Suc (use_count (blocks s c))\<rparr>"
proof (cases "data_m (objs s this)")
  case None
  then show ?thesis
    by (simp add: atomic_store_def Let_def sp_acquire_def sp_release_def)
next
  case (Some b)
  then have "b \<noteq> c" using assms by simp
  then show ?thesis using Some
    by (simp add: atomic_store_def Let_def sp_acquire_def sp_release_def)
qed

lemma Init_block:
  assumes "data_m (objs s this) \<noteq> Some (fresh s)"
  shows "blocks (Init s this p t d) (fresh s) = \<lparr>owned_ptr = p, owned_deleter = d, use_count = 1\<rparr>"
proof -
  let ?c = "fresh s"
  let ?s1 = "snd (sp_new s p d)"
  let ?s2 = "atomic_store ?s1 this (Some ?c)"
  let ?s3 = "?s2\<lparr>objs := (objs ?s2)(this := (objs ?s2 this)\<lparr>type_m := t\<rparr>)\<rparr>"
  have i: "Init s this p t d = sp_release ?s3 (Some ?c)"
    by (simp add: Init_def sp_new_def Let_def)
  have o: "data_m (objs ?s1 this) \<noteq> Some ?c"
    using assms by (simp add: sp_new_def)
  have b1: "blocks ?s1 ?c = \<lparr>owned_ptr = p, owned_deleter = d, use_count = 1\<rparr>"
    by (simp add: sp_new_def)
  have b2: "blocks ?s2 ?c = \<lparr>owned_ptr = p, owned_deleter = d, use_count = 2\<rparr>"
    using atomic_store_acquired [OF o] by (simp add: b1)
  have b3: "blocks ?s3 ?c = \<lparr>owned_ptr = p, owned_deleter = d, use_count = 2\<rparr>"
    using b2 by simp
  show ?thesis
    unfolding i using b3 by (simp add: sp_release_def)
qed

lemma Init_fresh: "fresh (Init s this p t d) = Suc (fresh s)"
  by (simp add: Init_def sp_new_def Let_def atomic_store_fresh sp_release_fresh)

lemma OrtValue_init_fresh: "fresh (OrtValue_init s this p t d) = Suc (fresh s)"
  by (simp add: OrtValue_init_def Init_fresh OrtValue_default_def)

lemma dtor_objs:
  "objs (OrtValue_dtor s a) = (objs s)(a := (objs s a)\<lparr>data_m := None\<rparr>)"
  by (simp add: OrtValue_dtor_def atomic_store_objs)

lemma dtor_last:
  assumes "data_m (objs s a) = Some c" and "use_count (blocks s c) = 1"
  shows "calls (OrtValue_dtor s a) = calls s @ [(owned_deleter (blocks s c), owned_ptr (blocks s c))]"
  using assms
  by (simp add: OrtValue_dtor_def atomic_store_def Let_def sp_acquire_def sp_release_def)

lemma dtor_not_last:
  assumes "data_m (objs s a) = Some c" and "use_count (blocks s c) \<noteq> 1"
  shows "calls (OrtValue_dtor s a) = calls s"
    and "blocks (OrtValue_dtor s a) =
           (blocks s)(c := (blocks s c)\<lparr>use_count := use_count (blocks s c) - 1\<rparr>)"
  using assms
  by (simp_all add: OrtValue_dtor_def atomic_store_def Let_def sp_acquire_def sp_release_def)

subsection \<open>The handles in the store exist\<close>

text \<open>
  The store of a program that starts from \<open>heap0\<close> and uses the operations of the header
  holds no handle to a control block that is yet to be created; this is what Init needs of
  the container it is called on.
\<close>

lemma handle_exists_iff: "handle_exists s r = (\<forall>c. r = Some c \<longrightarrow> c < fresh s)"
  by (cases r) (simp_all add: handle_exists_def)

lemma handles_ok_heap0: "handles_ok heap0"
  by (simp add: handles_ok_def handle_exists_iff heap0_def)

lemma handles_ok_preserved:
  assumes "handles_ok s"
  shows "handles_ok (OrtValue_default s this)"
    and "handles_ok (Init s this pData type deleter)"
    and "handles_ok (OrtValue_init s this pData type deleter)"
    and "handles_ok (OrtValue_copy s this v)"
    and "handles_ok (OrtValue_dtor s this)"
    and "handles_ok (copy_assign s this v)"
    and "handles_ok (move_assign s this v)"
    and "handles_ok (SetFence s this fence)"
    and "handles_ok (ShareFenceWith s this v)"
proof -
  have h: "\<And>a c. data_m (objs s a) = Some c \<Longrightarrow> c < fresh s"
    using assms by (simp add: handles_ok_def handle_exists_iff)
  have h': "\<And>a c. data_m (objs s a) = Some c \<Longrightarrow> c < Suc (fresh s)"
    using h by (simp add: less_SucI)
  show "handles_ok (OrtValue_default s this)"
    using h by (simp add: handles_ok_def handle_exists_iff OrtValue_default_def)
  show "handles_ok (Init s this pData type deleter)"
    using h' by (simp add: handles_ok_def handle_exists_iff Init_objs Init_fresh)
  show "handles_ok (OrtValue_init s this pData type deleter)"
    using h'
    by (simp add: handles_ok_def handle_exists_iff OrtValue_init_objs OrtValue_init_fresh)
  show "handles_ok (OrtValue_copy s this v)"
    using h
    by (simp add: handles_ok_def handle_exists_iff OrtValue_copy_def Let_def atomic_store_objs
        atomic_store_fresh)
  show "handles_ok (OrtValue_dtor s this)"
    using h
    by (simp add: handles_ok_def handle_exists_iff OrtValue_dtor_def atomic_store_objs
        atomic_store_fresh)
  show "handles_ok (copy_assign s this v)"
    using h by (simp add: handles_ok_def handle_exists_iff copy_assign_objs copy_assign_fresh)
  show "handles_ok (move_assign s this v)"
    using h
    by (simp add: handles_ok_def handle_exists_iff move_assign_is_copy_assign copy_assign_objs
        copy_assign_fresh)
  show "handles_ok (SetFence s this fence)"
    using h by (simp add: handles_ok_def handle_exists_iff SetFence_def)
  show "handles_ok (ShareFenceWith s this v)"
    using h by (simp add: handles_ok_def handle_exists_iff ShareFenceWith_def)
qed

subsection \<open>The precondition of Init holds in the stores a program builds\<close>

lemma Init_sp_get: "sp_get (Init s this p t d) (Some (fresh s)) = p"
  by (simp add: sp_get_def Init_def sp_new_def Let_def sp_release_owned atomic_store_owned)

lemma Init_sp_get_old:
  assumes "c \<noteq> fresh s"
  shows "sp_get (Init s this p t d) (Some c) = sp_get s (Some c)"
  using assms
  by (simp add: sp_get_def Init_def sp_new_def Let_def sp_release_owned atomic_store_owned)

lemma well_formed_default: "well_formed (OrtValue_default s this) this"
  by (simp add: well_formed_def OrtValue_default_def sp_get_def)

text \<open>Init within its precondition, on any container, and the constructor likewise.\<close>

lemma well_formed_Init:
  assumes "(pData = None) = (type = None)"
  shows "well_formed (Init s this pData type deleter) this"
    and "well_formed (OrtValue_init s this pData type deleter) this"
proof -
  show "well_formed (Init s this pData type deleter) this"
    using assms by (simp add: well_formed_def Init_objs Init_sp_get)
  have "fresh (OrtValue_default s this) = fresh s"
    by (simp add: OrtValue_default_def)
  then have "sp_get (OrtValue_init s this pData type deleter) (Some (fresh s)) = pData"
    using Init_sp_get [of "OrtValue_default s this" this pData type deleter]
    by (simp add: OrtValue_init_def)
  then show "well_formed (OrtValue_init s this pData type deleter) this"
    using assms by (simp add: well_formed_def OrtValue_init_objs)
qed

text \<open>A copy of a container within the precondition is within it, however it is made.\<close>

lemma well_formed_copied:
  assumes "well_formed s src"
    and "s' = copy_assign s dst src \<or> s' = move_assign s dst src
         \<or> (dst \<noteq> src \<and> s' = OrtValue_copy s dst src)"
  shows "well_formed s' dst" and "well_formed s' src"
proof -
  have c: "s' = copy_assign s dst src \<or> (dst \<noteq> src \<and> s' = OrtValue_copy s dst src)"
    using assms(2) by (auto simp: move_assign_is_copy_assign)
  have o: "objs s' = (objs s)(dst := objs s src)" using c by (rule copied_objs)
  have g: "\<And>h. sp_get s' h = sp_get s h" using c by (rule copied_sp_get)
  show "well_formed s' dst" using assms(1) by (simp add: well_formed_def o g)
  show "well_formed s' src" using assms(1) by (simp add: well_formed_def o g)
qed

text \<open>The fence operations and what is done to another container leave it as it is.\<close>

lemma well_formed_kept:
  shows "well_formed (SetFence s a fence) b = well_formed s b"
    and "well_formed (ShareFenceWith s a v) b = well_formed s b"
    and "a \<noteq> b \<Longrightarrow> well_formed (OrtValue_default s a) b = well_formed s b"
    and "a \<noteq> b \<Longrightarrow> well_formed (OrtValue_copy s a v) b = well_formed s b"
    and "a \<noteq> b \<Longrightarrow> well_formed (copy_assign s a v) b = well_formed s b"
    and "a \<noteq> b \<Longrightarrow> well_formed (move_assign s a v) b = well_formed s b"
    and "a \<noteq> b \<Longrightarrow> well_formed (OrtValue_dtor s a) b = well_formed s b"
    and "a \<noteq> b \<Longrightarrow> handle_exists s (data_m (objs s b)) \<Longrightarrow>
           well_formed (Init s a pData type deleter) b = well_formed s b"
proof -
  show "well_formed (SetFence s a fence) b = well_formed s b"
    by (simp add: well_formed_def SetFence_def sp_get_objs_update)
  show "well_formed (ShareFenceWith s a v) b = well_formed s b"
    by (simp add: well_formed_def ShareFenceWith_def sp_get_objs_update)
  show "a \<noteq> b \<Longrightarrow> well_formed (OrtValue_default s a) b = well_formed s b"
    by (simp add: well_formed_def OrtValue_default_def sp_get_objs_update)
  show "a \<noteq> b \<Longrightarrow> well_formed (OrtValue_copy s a v) b = well_formed s b"
    by (simp add: well_formed_def OrtValue_copy_sp_get OrtValue_copy_objs_other)
  show "a \<noteq> b \<Longrightarrow> well_formed (copy_assign s a v) b = well_formed s b"
    by (simp add: well_formed_def copy_assign_sp_get copy_assign_objs)
  show "a \<noteq> b \<Longrightarrow> well_formed (move_assign s a v) b = well_formed s b"
    by (simp add: well_formed_def move_assign_is_copy_assign copy_assign_sp_get copy_assign_objs)
  show "a \<noteq> b \<Longrightarrow> well_formed (OrtValue_dtor s a) b = well_formed s b"
    by (simp add: well_formed_def OrtValue_dtor_def sp_get_atomic_store atomic_store_objs)
  show "a \<noteq> b \<Longrightarrow> handle_exists s (data_m (objs s b)) \<Longrightarrow>
           well_formed (Init s a pData type deleter) b = well_formed s b"
  proof -
    assume ab: "a \<noteq> b" and h: "handle_exists s (data_m (objs s b))"
    have "sp_get (Init s a pData type deleter) (data_m (objs s b)) = sp_get s (data_m (objs s b))"
    proof (cases "data_m (objs s b)")
      case None
      then show ?thesis by (simp add: sp_get_def)
    next
      case (Some c)
      then have "c \<noteq> fresh s" using h by (simp add: handle_exists_def)
      then show ?thesis using Some by (simp add: Init_sp_get_old)
    qed
    then show ?thesis using ab by (simp add: well_formed_def Init_objs)
  qed
qed

subsection \<open>Runs: the count follows the owners\<close>

lemma destroy_all_append:
  "destroy_all s (xs @ ys) = destroy_all (destroy_all s xs) ys"
  by (induction xs arbitrary: s) simp_all

text \<open>
  Destroying fewer containers than the block has owners calls no deleter and lowers the
  count by their number.
\<close>

lemma destroy_some:
  assumes "distinct os" and "\<forall>a \<in> set os. data_m (objs s a) = Some c"
    and "length os < use_count (blocks s c)"
  shows "calls (destroy_all s os) = calls s
       \<and> blocks (destroy_all s os) =
           (blocks s)(c := (blocks s c)\<lparr>use_count := use_count (blocks s c) - length os\<rparr>)
       \<and> (\<forall>b. b \<notin> set os \<longrightarrow> objs (destroy_all s os) b = objs s b)"
  using assms
proof (induction os arbitrary: s)
  case Nil
  then show ?case by simp
next
  case (Cons a os)
  let ?s = "OrtValue_dtor s a"
  have a: "data_m (objs s a) = Some c" using Cons.prems by simp
  have n: "use_count (blocks s c) \<noteq> 1" using Cons.prems by simp
  have c1: "calls ?s = calls s" using a n by (rule dtor_not_last)
  have b1: "blocks ?s = (blocks s)(c := (blocks s c)\<lparr>use_count := use_count (blocks s c) - 1\<rparr>)"
    using a n by (rule dtor_not_last)
  have o1: "objs ?s = (objs s)(a := (objs s a)\<lparr>data_m := None\<rparr>)" by (rule dtor_objs)
  have d: "distinct os" using Cons.prems by simp
  have h: "\<forall>x \<in> set os. data_m (objs ?s x) = Some c"
    using Cons.prems by (auto simp: o1)
  have l: "length os < use_count (blocks ?s c)"
    using Cons.prems by (simp add: b1)
  note ih = Cons.IH [OF d h l]
  have "calls (destroy_all s (a # os)) = calls s"
    using ih by (simp add: c1)
  moreover have "blocks (destroy_all s (a # os)) =
      (blocks s)(c := (blocks s c)\<lparr>use_count := use_count (blocks s c) - length (a # os)\<rparr>)"
    using ih by (simp add: b1 fun_eq_iff)
  moreover have "\<forall>b. b \<notin> set (a # os) \<longrightarrow> objs (destroy_all s (a # os)) b = objs s b"
    using ih by (simp add: o1)
  ultimately show ?case by blast
qed

lemma destroy_owned_prefix:
  assumes "owned_by s c ord" and "k < length ord"
  shows "calls (destroy_all s (take k ord)) = calls s"
proof -
  have "distinct (take k ord)" using assms by (simp add: owned_by_def)
  moreover have "\<forall>a \<in> set (take k ord). data_m (objs s a) = Some c"
    using assms by (auto simp: owned_by_def dest: in_set_takeD)
  moreover have "length (take k ord) < use_count (blocks s c)"
    using assms by (simp add: owned_by_def)
  ultimately show ?thesis using destroy_some by blast
qed

text \<open>Destroying all the owners calls the deleter once, at the last of them.\<close>

lemma destroy_owned_all:
  assumes "owned_by s c ord" and "ord \<noteq> []"
  shows "calls (destroy_all s ord) = calls s @ [(owned_deleter (blocks s c), owned_ptr (blocks s c))]"
proof -
  obtain xs x where ord: "ord = xs @ [x]"
    using assms(2) by (metis rev_exhaust)
  let ?s = "destroy_all s xs"
  have d: "distinct xs" and x: "x \<notin> set xs" using assms(1) by (simp_all add: owned_by_def ord)
  have h: "\<forall>a \<in> set xs. data_m (objs s a) = Some c" using assms(1) by (simp add: owned_by_def ord)
  have l: "length xs < use_count (blocks s c)" using assms(1) by (simp add: owned_by_def ord)
  have n: "use_count (blocks s c) = Suc (length xs)" using assms(1) by (simp add: owned_by_def ord)
  note st = destroy_some [OF d h l]
  have hx: "data_m (objs ?s x) = Some c"
    using st x assms(1) by (simp add: owned_by_def ord)
  have u: "use_count (blocks ?s c) = 1" using st n by simp
  have "calls (OrtValue_dtor ?s x) = calls ?s @ [(owned_deleter (blocks ?s c), owned_ptr (blocks ?s c))]"
    using hx u by (rule dtor_last)
  then show ?thesis using st by (simp add: ord destroy_all_append)
qed

text \<open>Every copy constructed from an owner is one more owner; no deleter is called.\<close>

lemma copy_all_owned:
  assumes "owned_by s c os" and "copies_of os cs"
  shows "owned_by (copy_all s cs) c (rev (copy_addrs cs) @ os)
       \<and> calls (copy_all s cs) = calls s
       \<and> owned_ptr (blocks (copy_all s cs) c) = owned_ptr (blocks s c)
       \<and> owned_deleter (blocks (copy_all s cs) c) = owned_deleter (blocks s c)"
  using assms
proof (induction cs arbitrary: s os)
  case Nil
  then show ?case by simp
next
  case (Cons x cs)
  obtain how this v where x: "x = (how, this, v)" by (cases x)
  let ?s = "OrtValue_copy s this v"
  have t: "this \<notin> set os" and v: "v \<in> set os" and r: "copies_of (this # os) cs"
    using Cons.prems(2) by (simp_all add: x)
  have ne: "this \<noteq> v" using t v by auto
  have hv: "data_m (objs s v) = Some c" using Cons.prems(1) v by (simp add: owned_by_def)
  have o1: "objs ?s = (objs s)(this := objs s v)" using ne by (rule OrtValue_copy_objs)
  have b1: "blocks ?s = (blocks s)(c := (blocks s c)\<lparr>use_count := Suc (use_count (blocks s c))\<rparr>)"
    using ne hv by (rule copy_step)
  have c1: "calls ?s = calls s" using ne by (rule OrtValue_copy_calls)
  have ow: "owned_by ?s c (this # os)"
    using Cons.prems(1) t hv by (auto simp: owned_by_def o1 b1)
  have m: "make_copy s how this v = ?s" using ne by (rule make_copy_eq)
  note ih = Cons.IH [OF ow r]
  show ?case using ih by (simp add: x m c1 b1)
qed

text \<open>
  A container that has just been constructed with a payload, or on which Init has just
  been called, is the only owner of the control block that was created for it.
\<close>

lemma built_owned:
  assumes "s1 = OrtValue_init s0 a pData type deleter
         \<or> (handle_exists s0 (data_m (objs s0 a)) \<and> s1 = Init s0 a pData type deleter)"
  shows "owned_by s1 (fresh s0) [a]
       \<and> blocks s1 (fresh s0) = \<lparr>owned_ptr = pData, owned_deleter = deleter, use_count = 1\<rparr>"
proof -
  obtain s where s: "s1 = Init s a pData type deleter" and f: "fresh s = fresh s0"
    and h: "data_m (objs s a) \<noteq> Some (fresh s)"
    using assms
    by (auto simp: OrtValue_init_def OrtValue_default_def handle_exists_def split: option.splits)
  have "blocks s1 (fresh s) = \<lparr>owned_ptr = pData, owned_deleter = deleter, use_count = 1\<rparr>"
    unfolding s using h by (rule Init_block)
  moreover have "data_m (objs s1 a) = Some (fresh s)"
    by (simp add: s Init_objs)
  ultimately show ?thesis
    by (simp add: owned_by_def f)
qed

lemma run_calls:
  assumes o: "owned_by s1 c [a]"
    and cs: "copies_of [a] cs"
    and ord: "distinct ord" "set ord = set (a # copy_addrs cs)"
  shows "calls (destroy_all (copy_all s1 cs) ord) =
           calls s1 @ [(owned_deleter (blocks s1 c), owned_ptr (blocks s1 c))]
       \<and> (\<forall>k < length ord. calls (destroy_all (copy_all s1 cs) (take k ord)) = calls s1)"
proof -
  let ?s = "copy_all s1 cs"
  let ?os = "rev (copy_addrs cs) @ [a]"
  note c = copy_all_owned [OF o cs]
  have os: "owned_by ?s c ?os" using c by simp
  have se: "set ord = set ?os" using ord by auto
  moreover have "distinct ?os" using os by (simp add: owned_by_def)
  ultimately have len: "length ord = length ?os"
    using ord(1) by (metis distinct_card)
  have oo: "owned_by ?s c ord"
    using os ord len se by (simp add: owned_by_def)
  have ne: "ord \<noteq> []" using ord(2) by auto
  have "calls (destroy_all ?s ord) = calls ?s @ [(owned_deleter (blocks ?s c), owned_ptr (blocks ?s c))]"
    using oo ne by (rule destroy_owned_all)
  moreover have "\<forall>k < length ord. calls (destroy_all ?s (take k ord)) = calls ?s"
    using oo by (simp add: destroy_owned_prefix)
  ultimately show ?thesis using c by simp
qed

section \<open>The claims\<close>

subsection \<open>C1: the exact-type accessors\<close>

text \<open>
  C1. For every type \<open>T\<close> that reaches the primary templates and every container:
  \<^verbatim>\<open>Get<T>()\<close> and \<^verbatim>\<open>GetMutable<T>()\<close> fail with TypeMismatch, carrying the identity
  of \<open>T\<close> and the identity found, whenever the stored identity differs from the
  identity of \<open>T\<close>; this includes the unallocated container, whose identity is null
  while the identity of \<open>T\<close>, issued by the registry, is not. When the two identities are
  equal the call succeeds and returns the stored payload, as a reference from \<^verbatim>\<open>Get\<close>
  and as a pointer from \<^verbatim>\<open>GetMutable\<close>. The containers are those within the precondition
  of Init: payload and identity both null or both non-null. The last part records what
  the two accessors return on equal identities with no condition on the container.
\<close>

theorem exact_accessors_checked:
  "(GetType T \<noteq> type_m (objs s this) \<longrightarrow>
      Get GetType T s this = Inl (TypeMismatch (Exact (GetType T)) (type_m (objs s this))) \<and>
      GetMutable GetType T s this = Inl (TypeMismatch (Exact (GetType T)) (type_m (objs s this))))
   \<and> (type_m (objs s this) = None \<and> GetType T \<noteq> None \<longrightarrow>
      Get GetType T s this = Inl (TypeMismatch (Exact (GetType T)) None) \<and>
      GetMutable GetType T s this = Inl (TypeMismatch (Exact (GetType T)) None))
   \<and> (well_formed s this \<and> \<not> IsAllocated s this \<and> GetType T \<noteq> None \<longrightarrow>
      Get GetType T s this = Inl (TypeMismatch (Exact (GetType T)) None) \<and>
      GetMutable GetType T s this = Inl (TypeMismatch (Exact (GetType T)) None))
   \<and> (well_formed s this \<and> GetType T \<noteq> None \<and> GetType T = type_m (objs s this) \<longrightarrow>
      (\<exists>p. sp_get s (data_m (objs s this)) = Some p \<and>
           Get GetType T s this = Inr p \<and> GetMutable GetType T s this = Inr (Some p)))
   \<and> (GetType T = type_m (objs s this) \<longrightarrow>
      GetMutable GetType T s this = Inr (sp_get s (data_m (objs s this))) \<and>
      (\<forall>p. sp_get s (data_m (objs s this)) = Some p \<longrightarrow> Get GetType T s this = Inr p))"
proof -
  have 1: "GetType T \<noteq> type_m (objs s this) \<longrightarrow>
      Get GetType T s this = Inl (TypeMismatch (Exact (GetType T)) (type_m (objs s this))) \<and>
      GetMutable GetType T s this = Inl (TypeMismatch (Exact (GetType T)) (type_m (objs s this)))"
    by (simp add: Get_def GetMutable_def)
  have 2: "type_m (objs s this) = None \<and> GetType T \<noteq> None \<longrightarrow>
      Get GetType T s this = Inl (TypeMismatch (Exact (GetType T)) None) \<and>
      GetMutable GetType T s this = Inl (TypeMismatch (Exact (GetType T)) None)"
    by (simp add: Get_def GetMutable_def)
  have 3: "well_formed s this \<and> \<not> IsAllocated s this \<and> GetType T \<noteq> None \<longrightarrow>
      Get GetType T s this = Inl (TypeMismatch (Exact (GetType T)) None) \<and>
      GetMutable GetType T s this = Inl (TypeMismatch (Exact (GetType T)) None)"
    by (auto simp: Get_def GetMutable_def well_formed_def IsAllocated_def)
  have 4: "well_formed s this \<and> GetType T \<noteq> None \<and> GetType T = type_m (objs s this) \<longrightarrow>
      (\<exists>p. sp_get s (data_m (objs s this)) = Some p \<and>
           Get GetType T s this = Inr p \<and> GetMutable GetType T s this = Inr (Some p))"
    by (auto simp: Get_def GetMutable_def well_formed_def)
  have 5: "GetType T = type_m (objs s this) \<longrightarrow>
      GetMutable GetType T s this = Inr (sp_get s (data_m (objs s this))) \<and>
      (\<forall>p. sp_get s (data_m (objs s this)) = Some p \<longrightarrow> Get GetType T s this = Inr p)"
    by (simp add: Get_def GetMutable_def)
  show ?thesis using 1 2 3 4 5 by blast
qed

text \<open>
  A container holding a map as payload 100: the tensor accessor fails on it and the map
  accessor returns the payload; every accessor fails on a default-constructed container.
\<close>

theorem exact_accessors_checked_witness:
  "Get GetType_ex 1 (OrtValue_init heap0 0 (Some 100) (Some map_string) 7) 0 =
     Inl (TypeMismatch (Exact (Some tensor_float)) (Some map_string))
   \<and> GetMutable GetType_ex 1 (OrtValue_default heap0 0) 0 =
     Inl (TypeMismatch (Exact (Some tensor_float)) None)
   \<and> Get GetType_ex 3 (OrtValue_init heap0 0 (Some 100) (Some map_string) 7) 0 = Inr 100
   \<and> GetMutable GetType_ex 3 (OrtValue_init heap0 0 (Some 100) (Some map_string) 7) 0 =
     Inr (Some 100)"
proof -
  let ?s = "OrtValue_init heap0 0 (Some 100) (Some map_string) 7"
  let ?e = "OrtValue_default heap0 0"
  have g: "GetType_ex 1 = Some tensor_float" "GetType_ex 3 = Some map_string"
    by (simp_all add: GetType_ex_def)
  have ts: "type_m (objs ?s 0) = Some map_string" by (simp add: OrtValue_init_objs)
  have ne: "Some tensor_float \<noteq> Some map_string"
    by (simp add: tensor_float_def map_string_def)
  have ws: "well_formed ?s 0" by (simp add: well_formed_Init)
  have we: "well_formed ?e 0" by (rule well_formed_default)
  have ae: "\<not> IsAllocated ?e 0" by (simp add: IsAllocated_def OrtValue_default_def)
  have ps: "sp_get ?s (data_m (objs ?s 0)) = Some 100" by (simp add: run_defs)
  note a = exact_accessors_checked [of GetType_ex 1 ?s 0]
  note b = exact_accessors_checked [of GetType_ex 1 ?e 0]
  note c = exact_accessors_checked [of GetType_ex 3 ?s 0]
  have "GetType_ex 1 \<noteq> type_m (objs ?s 0) \<longrightarrow>
      Get GetType_ex 1 ?s 0 = Inl (TypeMismatch (Exact (GetType_ex 1)) (type_m (objs ?s 0)))"
    using a by blast
  then have r1: "Get GetType_ex 1 ?s 0 =
      Inl (TypeMismatch (Exact (Some tensor_float)) (Some map_string))"
    using g ts ne by simp
  have "well_formed ?e 0 \<and> \<not> IsAllocated ?e 0 \<and> GetType_ex 1 \<noteq> None \<longrightarrow>
      GetMutable GetType_ex 1 ?e 0 = Inl (TypeMismatch (Exact (GetType_ex 1)) None)"
    using b by blast
  then have r2: "GetMutable GetType_ex 1 ?e 0 =
      Inl (TypeMismatch (Exact (Some tensor_float)) None)"
    using g we ae by simp
  have "well_formed ?s 0 \<and> GetType_ex 3 \<noteq> None \<and> GetType_ex 3 = type_m (objs ?s 0) \<longrightarrow>
      (\<exists>p. sp_get ?s (data_m (objs ?s 0)) = Some p \<and>
           Get GetType_ex 3 ?s 0 = Inr p \<and> GetMutable GetType_ex 3 ?s 0 = Inr (Some p))"
    using c by blast
  then obtain p where "sp_get ?s (data_m (objs ?s 0)) = Some p"
    and "Get GetType_ex 3 ?s 0 = Inr p" and "GetMutable GetType_ex 3 ?s 0 = Inr (Some p)"
    using g ts ws by auto
  then have r3: "Get GetType_ex 3 ?s 0 = Inr 100 \<and> GetMutable GetType_ex 3 ?s 0 = Inr (Some 100)"
    using ps by simp
  show ?thesis using r1 r2 r3 by simp
qed

subsection \<open>C2: the deleter runs exactly once\<close>

text \<open>
  C2. A container is constructed with a payload and a deleter, or Init is called on an
  existing container; any number of copies are made of it and of each other, each by the
  copy constructor or by assigning to a new default-constructed container; then all of
  them, the original included, are destroyed in an arbitrary order \<open>ord\<close>.
  Over the whole run of destructors the deleter is called exactly once, on the payload,
  and after any proper prefix of the run it has not been called: the call happens at the
  last destructor, whichever container that is.
\<close>

theorem deleter_runs_exactly_once:
  assumes "s1 = OrtValue_init s0 a pData type deleter
         \<or> (handle_exists s0 (data_m (objs s0 a)) \<and> s1 = Init s0 a pData type deleter)"
    and "copies_of [a] cs"
    and "distinct ord"
    and "set ord = set (a # copy_addrs cs)"
  shows "calls (destroy_all (copy_all s1 cs) ord) = calls s1 @ [(deleter, pData)]
       \<and> (\<forall>k < length ord. calls (destroy_all (copy_all s1 cs) (take k ord)) = calls s1)"
proof -
  note b = built_owned [OF assms(1)]
  have o: "owned_by s1 (fresh s0) [a]" using b by simp
  show ?thesis
    using run_calls [OF o assms(2) assms(3) assms(4)] b by simp
qed

text \<open>
  Three copies of a constructed container, one made in each of the three ways, destroyed
  in the order 2, 0, 3, 1; and a container that is re-initialised with a second payload
  (which releases the first) and copied once, the copy being destroyed first.
\<close>

theorem deleter_runs_exactly_once_witness:
  "calls (destroy_all
      (copy_all (OrtValue_init heap0 0 (Some 100) (Some tensor_float) 7)
         [(By_constructor, 1, 0), (By_copy_assign, 2, 1), (By_move_assign, 3, 0)])
      [2, 0, 3, 1]) = [(7, Some 100)]
   \<and> calls (destroy_all
      (copy_all (OrtValue_init heap0 0 (Some 100) (Some tensor_float) 7)
         [(By_constructor, 1, 0), (By_copy_assign, 2, 1), (By_move_assign, 3, 0)])
      [2, 0, 3]) = []
   \<and> calls (destroy_all
      (copy_all
         (Init (OrtValue_init heap0 0 (Some 100) (Some tensor_float) 7) 0 (Some 200)
            (Some tensor_float) 8)
         [(By_constructor, 1, 0)])
      [1, 0]) = [(7, Some 100), (8, Some 200)]"
proof -
  let ?s1 = "OrtValue_init heap0 0 (Some 100) (Some tensor_float) 7"
  let ?s2 = "Init ?s1 0 (Some 200) (Some tensor_float) 8"
  let ?cs = "[(By_constructor, 1, 0), (By_copy_assign, 2, 1), (By_move_assign, 3, 0)]"
  have c: "copies_of [0] ?cs" by simp
  have d: "distinct [2, 0, 3, 1::nat]" by simp
  have e: "set [2, 0, 3, 1::nat] = set (0 # copy_addrs ?cs)" by auto
  have k: "(3::nat) < length [2, 0, 3, 1::nat]" by simp
  have z: "calls ?s1 = []" by (simp add: run_defs)
  note t = deleter_runs_exactly_once [of ?s1 heap0 0 "Some 100" "Some tensor_float" 7, OF _ c d e]
  have t1: "calls (destroy_all (copy_all ?s1 ?cs) [2, 0, 3, 1]) = calls ?s1 @ [(7, Some 100)]"
    using t by simp
  have "calls (destroy_all (copy_all ?s1 ?cs) (take 3 [2, 0, 3, 1])) = calls ?s1"
    using t k by blast
  then have t2: "calls (destroy_all (copy_all ?s1 ?cs) [2, 0, 3]) = calls ?s1"
    by simp
  have he: "handle_exists ?s1 (data_m (objs ?s1 0))"
    by (simp add: handle_exists_def OrtValue_init_objs OrtValue_init_fresh)
  have h: "?s2 = OrtValue_init ?s1 0 (Some 200) (Some tensor_float) 8
      \<or> (handle_exists ?s1 (data_m (objs ?s1 0)) \<and> ?s2 = ?s2)"
    using he by blast
  have c2: "copies_of [0] [(By_constructor, 1, 0)]" by simp
  have d2: "distinct [1, 0::nat]" by simp
  have e2: "set [1, 0::nat] = set (0 # copy_addrs [(By_constructor, 1, 0)])" by auto
  have z2: "calls ?s2 = [(7, Some 100)]" by (simp add: run_defs)
  have t3: "calls (destroy_all (copy_all ?s2 [(By_constructor, 1, 0)]) [1, 0]) =
      calls ?s2 @ [(8, Some 200)]"
    using deleter_runs_exactly_once [OF h c2 d2 e2] by simp
  show ?thesis using t1 t2 t3 z z2 by simp
qed

subsection \<open>C3: a copy shares the state of its source\<close>

text \<open>
  C3. When the container at \<open>dst\<close> is produced from the one at \<open>src\<close> by copy
  construction or by copy assignment, it holds the payload handle, the identity and the
  fence of the source, and the source is unchanged. \<^verbatim>\<open>IsAllocated()\<close> agrees on the two,
  and every typed accessor returns on the copy what it returns on the source: the same
  payload address or the same failure. No control block is created, so the payload is
  shared and not duplicated; copy construction adds one owner to the source's control
  block and calls no deleter.
\<close>

theorem copy_shares_state:
  assumes "s' = copy_assign s dst src \<or> (dst \<noteq> src \<and> s' = OrtValue_copy s dst src)"
  shows "data_m (objs s' dst) = data_m (objs s src)
       \<and> type_m (objs s' dst) = type_m (objs s src)
       \<and> fence_m (objs s' dst) = fence_m (objs s src)
       \<and> objs s' src = objs s src
       \<and> fresh s' = fresh s
       \<and> IsAllocated s' dst = IsAllocated s' src
       \<and> IsAllocated s' src = IsAllocated s src
       \<and> Get GetType T s' dst = Get GetType T s' src
       \<and> Get GetType T s' src = Get GetType T s src
       \<and> GetMutable GetType T s' dst = GetMutable GetType T s' src
       \<and> Get_Tensor s' dst = Get_Tensor s' src
       \<and> Get_TensorSeq s' dst = Get_TensorSeq s' src
       \<and> Get_SparseTensor s' dst = Get_SparseTensor s' src
       \<and> (dst \<noteq> src \<and> s' = OrtValue_copy s dst src \<longrightarrow>
            calls s' = calls s
            \<and> (\<forall>c. data_m (objs s src) = Some c \<longrightarrow>
                 use_count (blocks s' c) = Suc (use_count (blocks s c))))"
proof -
  have o: "objs s' = (objs s)(dst := objs s src)"
    using assms by (rule copied_objs)
  have g: "\<And>h. sp_get s' h = sp_get s h"
    using assms by (rule copied_sp_get)
  have f: "fresh s' = fresh s"
    using assms by (auto simp: copy_assign_fresh OrtValue_copy_fresh)
  have c: "dst \<noteq> src \<and> s' = OrtValue_copy s dst src \<longrightarrow>
            calls s' = calls s
            \<and> (\<forall>c. data_m (objs s src) = Some c \<longrightarrow>
                 use_count (blocks s' c) = Suc (use_count (blocks s c)))"
    by (simp add: OrtValue_copy_calls copy_step)
  have "data_m (objs s' dst) = data_m (objs s src)
       \<and> type_m (objs s' dst) = type_m (objs s src)
       \<and> fence_m (objs s' dst) = fence_m (objs s src)
       \<and> objs s' src = objs s src
       \<and> fresh s' = fresh s
       \<and> IsAllocated s' dst = IsAllocated s' src
       \<and> IsAllocated s' src = IsAllocated s src
       \<and> Get GetType T s' dst = Get GetType T s' src
       \<and> Get GetType T s' src = Get GetType T s src
       \<and> GetMutable GetType T s' dst = GetMutable GetType T s' src
       \<and> Get_Tensor s' dst = Get_Tensor s' src
       \<and> Get_TensorSeq s' dst = Get_TensorSeq s' src
       \<and> Get_SparseTensor s' dst = Get_SparseTensor s' src"
    by (simp add: o g f IsAllocated_def Get_def GetMutable_def Get_Tensor_def Get_TensorSeq_def
        Get_SparseTensor_def IsTensor_def IsTensorSequence_def IsSparseTensor_def)
  then show ?thesis using c by blast
qed

theorem copy_shares_state_witness:
  "IsAllocated (OrtValue_copy (OrtValue_init heap0 0 (Some 100) (Some tensor_float) 7) 1 0) 1
   \<and> Get_Tensor (OrtValue_copy (OrtValue_init heap0 0 (Some 100) (Some tensor_float) 7) 1 0) 1 =
       Inr 100
   \<and> Get_Tensor
        (copy_assign (OrtValue_default (OrtValue_init heap0 0 (Some 100) (Some tensor_float) 7) 2)
           2 0) 2 = Inr 100"
proof -
  let ?s = "OrtValue_init heap0 0 (Some 100) (Some tensor_float) 7"
  let ?t = "OrtValue_default ?s 2"
  have ha: "OrtValue_copy ?s 1 0 = copy_assign ?s 1 0
      \<or> ((1::nat) \<noteq> 0 \<and> OrtValue_copy ?s 1 0 = OrtValue_copy ?s 1 0)"
    by simp
  have hb: "copy_assign ?t 2 0 = copy_assign ?t 2 0
      \<or> ((2::nat) \<noteq> 0 \<and> copy_assign ?t 2 0 = OrtValue_copy ?t 2 0)"
    by simp
  note a = copy_shares_state [OF ha, of GetType_ex 1]
  note b = copy_shares_state [OF hb, of GetType_ex 1]
  have a1: "IsAllocated (OrtValue_copy ?s 1 0) 1 = IsAllocated ?s 0" using a by simp
  have a2: "Get_Tensor (OrtValue_copy ?s 1 0) 1 = Get_Tensor (OrtValue_copy ?s 1 0) 0"
    using a by simp
  have a3: "objs (OrtValue_copy ?s 1 0) 0 = objs ?s 0" using a by simp
  have b2: "Get_Tensor (copy_assign ?t 2 0) 2 = Get_Tensor (copy_assign ?t 2 0) 0"
    using b by simp
  have b3: "objs (copy_assign ?t 2 0) 0 = objs ?t 0" using b by simp
  have e1: "IsAllocated ?s 0" by (simp add: IsAllocated_def run_defs)
  have e2: "Get_Tensor (OrtValue_copy ?s 1 0) 0 = Inr 100"
    by (simp add: Get_Tensor_def IsTensor_def a3 OrtValue_copy_sp_get) (simp add: run_defs)
  have e3: "Get_Tensor (copy_assign ?t 2 0) 0 = Inr 100"
    by (simp add: Get_Tensor_def IsTensor_def b3 copy_assign_sp_get) (simp add: run_defs)
  show ?thesis using a1 a2 b2 e1 e2 e3 by simp
qed

subsection \<open>C4: the accessors of the three families\<close>

text \<open>
  C4. The accessors specialised for Tensor, TensorSeq and SparseTensor succeed exactly
  when the container's identity satisfies the predicate of their family. When it does
  not, the null identity included, \<^verbatim>\<open>Get\<close> and \<^verbatim>\<open>GetMutable\<close> fail with TypeMismatch,
  carrying the family and the identity found. When it does, they succeed and return the
  stored payload, as a reference from \<^verbatim>\<open>Get\<close> and as a pointer from \<^verbatim>\<open>GetMutable\<close>.
  Across families: a container holding a sparse-tensor identity fails the Tensor and the
  TensorSeq accessors and succeeds with the SparseTensor ones, and likewise for the other
  two families. The containers are those within the precondition of Init: payload
  and identity both null or both non-null. The last three parts record what the accessors
  return on an identity of their family with no condition on the container.
\<close>

theorem family_accessors_checked:
  "(\<not> IsTensor s this \<longrightarrow>
      Get_Tensor s this = Inl (TypeMismatch ATensor (type_m (objs s this))) \<and>
      GetMutable_Tensor s this = Inl (TypeMismatch ATensor (type_m (objs s this))))
   \<and> (well_formed s this \<and> IsTensor s this \<longrightarrow>
      (\<exists>p. sp_get s (data_m (objs s this)) = Some p \<and>
           Get_Tensor s this = Inr p \<and> GetMutable_Tensor s this = Inr (Some p)))
   \<and> (\<not> IsTensorSequence s this \<longrightarrow>
      Get_TensorSeq s this = Inl (TypeMismatch ATensorSeq (type_m (objs s this))) \<and>
      GetMutable_TensorSeq s this = Inl (TypeMismatch ATensorSeq (type_m (objs s this))))
   \<and> (well_formed s this \<and> IsTensorSequence s this \<longrightarrow>
      (\<exists>p. sp_get s (data_m (objs s this)) = Some p \<and>
           Get_TensorSeq s this = Inr p \<and> GetMutable_TensorSeq s this = Inr (Some p)))
   \<and> (\<not> IsSparseTensor s this \<longrightarrow>
      Get_SparseTensor s this = Inl (TypeMismatch ASparseTensor (type_m (objs s this))) \<and>
      GetMutable_SparseTensor s this = Inl (TypeMismatch ASparseTensor (type_m (objs s this))))
   \<and> (well_formed s this \<and> IsSparseTensor s this \<longrightarrow>
      (\<exists>p. sp_get s (data_m (objs s this)) = Some p \<and>
           Get_SparseTensor s this = Inr p \<and> GetMutable_SparseTensor s this = Inr (Some p)))
   \<and> (\<forall>t. type_m (objs s this) = Some t \<and> IsSparseTensorType t \<longrightarrow>
      Get_Tensor s this = Inl (TypeMismatch ATensor (Some t)) \<and>
      GetMutable_Tensor s this = Inl (TypeMismatch ATensor (Some t)) \<and>
      Get_TensorSeq s this = Inl (TypeMismatch ATensorSeq (Some t)) \<and>
      GetMutable_TensorSeq s this = Inl (TypeMismatch ATensorSeq (Some t)) \<and>
      IsSparseTensor s this \<and>
      (well_formed s this \<longrightarrow>
        (\<exists>p. sp_get s (data_m (objs s this)) = Some p \<and>
             Get_SparseTensor s this = Inr p \<and> GetMutable_SparseTensor s this = Inr (Some p))))
   \<and> (\<forall>t. type_m (objs s this) = Some t \<and> IsTensorType t \<longrightarrow>
      Get_TensorSeq s this = Inl (TypeMismatch ATensorSeq (Some t)) \<and>
      GetMutable_TensorSeq s this = Inl (TypeMismatch ATensorSeq (Some t)) \<and>
      Get_SparseTensor s this = Inl (TypeMismatch ASparseTensor (Some t)) \<and>
      GetMutable_SparseTensor s this = Inl (TypeMismatch ASparseTensor (Some t)) \<and>
      IsTensor s this \<and>
      (well_formed s this \<longrightarrow>
        (\<exists>p. sp_get s (data_m (objs s this)) = Some p \<and>
             Get_Tensor s this = Inr p \<and> GetMutable_Tensor s this = Inr (Some p))))
   \<and> (\<forall>t. type_m (objs s this) = Some t \<and> IsTensorSequenceType t \<longrightarrow>
      Get_Tensor s this = Inl (TypeMismatch ATensor (Some t)) \<and>
      GetMutable_Tensor s this = Inl (TypeMismatch ATensor (Some t)) \<and>
      Get_SparseTensor s this = Inl (TypeMismatch ASparseTensor (Some t)) \<and>
      GetMutable_SparseTensor s this = Inl (TypeMismatch ASparseTensor (Some t)) \<and>
      IsTensorSequence s this \<and>
      (well_formed s this \<longrightarrow>
        (\<exists>p. sp_get s (data_m (objs s this)) = Some p \<and>
             Get_TensorSeq s this = Inr p \<and> GetMutable_TensorSeq s this = Inr (Some p))))
   \<and> (IsTensor s this \<longrightarrow>
      GetMutable_Tensor s this = Inr (sp_get s (data_m (objs s this))) \<and>
      (\<forall>p. sp_get s (data_m (objs s this)) = Some p \<longrightarrow> Get_Tensor s this = Inr p))
   \<and> (IsTensorSequence s this \<longrightarrow>
      GetMutable_TensorSeq s this = Inr (sp_get s (data_m (objs s this))) \<and>
      (\<forall>p. sp_get s (data_m (objs s this)) = Some p \<longrightarrow> Get_TensorSeq s this = Inr p))
   \<and> (IsSparseTensor s this \<longrightarrow>
      GetMutable_SparseTensor s this = Inr (sp_get s (data_m (objs s this))) \<and>
      (\<forall>p. sp_get s (data_m (objs s this)) = Some p \<longrightarrow> Get_SparseTensor s this = Inr p))"
proof -
  have h1: "\<not> IsTensor s this \<longrightarrow>
      Get_Tensor s this = Inl (TypeMismatch ATensor (type_m (objs s this))) \<and>
      GetMutable_Tensor s this = Inl (TypeMismatch ATensor (type_m (objs s this)))"
    by (simp add: Get_Tensor_def GetMutable_Tensor_def Get_TensorSeq_def GetMutable_TensorSeq_def
        Get_SparseTensor_def GetMutable_SparseTensor_def IsTensor_def IsTensorSequence_def
        IsSparseTensor_def)
  have h2: "well_formed s this \<and> IsTensor s this \<longrightarrow>
      (\<exists>p. sp_get s (data_m (objs s this)) = Some p \<and>
           Get_Tensor s this = Inr p \<and> GetMutable_Tensor s this = Inr (Some p))"
    by (auto simp: well_formed_def Get_Tensor_def GetMutable_Tensor_def Get_TensorSeq_def GetMutable_TensorSeq_def
        Get_SparseTensor_def GetMutable_SparseTensor_def IsTensor_def IsTensorSequence_def
        IsSparseTensor_def
        split: option.splits)
  have h3: "\<not> IsTensorSequence s this \<longrightarrow>
      Get_TensorSeq s this = Inl (TypeMismatch ATensorSeq (type_m (objs s this))) \<and>
      GetMutable_TensorSeq s this = Inl (TypeMismatch ATensorSeq (type_m (objs s this)))"
    by (simp add: Get_Tensor_def GetMutable_Tensor_def Get_TensorSeq_def GetMutable_TensorSeq_def
        Get_SparseTensor_def GetMutable_SparseTensor_def IsTensor_def IsTensorSequence_def
        IsSparseTensor_def)
  have h4: "well_formed s this \<and> IsTensorSequence s this \<longrightarrow>
      (\<exists>p. sp_get s (data_m (objs s this)) = Some p \<and>
           Get_TensorSeq s this = Inr p \<and> GetMutable_TensorSeq s this = Inr (Some p))"
    by (auto simp: well_formed_def Get_Tensor_def GetMutable_Tensor_def Get_TensorSeq_def GetMutable_TensorSeq_def
        Get_SparseTensor_def GetMutable_SparseTensor_def IsTensor_def IsTensorSequence_def
        IsSparseTensor_def
        split: option.splits)
  have h5: "\<not> IsSparseTensor s this \<longrightarrow>
      Get_SparseTensor s this = Inl (TypeMismatch ASparseTensor (type_m (objs s this))) \<and>
      GetMutable_SparseTensor s this = Inl (TypeMismatch ASparseTensor (type_m (objs s this)))"
    by (simp add: Get_Tensor_def GetMutable_Tensor_def Get_TensorSeq_def GetMutable_TensorSeq_def
        Get_SparseTensor_def GetMutable_SparseTensor_def IsTensor_def IsTensorSequence_def
        IsSparseTensor_def)
  have h6: "well_formed s this \<and> IsSparseTensor s this \<longrightarrow>
      (\<exists>p. sp_get s (data_m (objs s this)) = Some p \<and>
           Get_SparseTensor s this = Inr p \<and> GetMutable_SparseTensor s this = Inr (Some p))"
    by (auto simp: well_formed_def Get_Tensor_def GetMutable_Tensor_def Get_TensorSeq_def GetMutable_TensorSeq_def
        Get_SparseTensor_def GetMutable_SparseTensor_def IsTensor_def IsTensorSequence_def
        IsSparseTensor_def
        split: option.splits)
  have h7: "\<forall>t. type_m (objs s this) = Some t \<and> IsSparseTensorType t \<longrightarrow>
      Get_Tensor s this = Inl (TypeMismatch ATensor (Some t)) \<and>
      GetMutable_Tensor s this = Inl (TypeMismatch ATensor (Some t)) \<and>
      Get_TensorSeq s this = Inl (TypeMismatch ATensorSeq (Some t)) \<and>
      GetMutable_TensorSeq s this = Inl (TypeMismatch ATensorSeq (Some t)) \<and>
      IsSparseTensor s this \<and>
      (well_formed s this \<longrightarrow>
        (\<exists>p. sp_get s (data_m (objs s this)) = Some p \<and>
             Get_SparseTensor s this = Inr p \<and> GetMutable_SparseTensor s this = Inr (Some p)))"
    by (auto simp: well_formed_def IsTensorType_def IsTensorSequenceType_def IsSparseTensorType_def
        Get_Tensor_def GetMutable_Tensor_def Get_TensorSeq_def GetMutable_TensorSeq_def
        Get_SparseTensor_def GetMutable_SparseTensor_def IsTensor_def IsTensorSequence_def
        IsSparseTensor_def)
  have h8: "\<forall>t. type_m (objs s this) = Some t \<and> IsTensorType t \<longrightarrow>
      Get_TensorSeq s this = Inl (TypeMismatch ATensorSeq (Some t)) \<and>
      GetMutable_TensorSeq s this = Inl (TypeMismatch ATensorSeq (Some t)) \<and>
      Get_SparseTensor s this = Inl (TypeMismatch ASparseTensor (Some t)) \<and>
      GetMutable_SparseTensor s this = Inl (TypeMismatch ASparseTensor (Some t)) \<and>
      IsTensor s this \<and>
      (well_formed s this \<longrightarrow>
        (\<exists>p. sp_get s (data_m (objs s this)) = Some p \<and>
             Get_Tensor s this = Inr p \<and> GetMutable_Tensor s this = Inr (Some p)))"
    by (auto simp: well_formed_def IsTensorType_def IsTensorSequenceType_def IsSparseTensorType_def
        Get_Tensor_def GetMutable_Tensor_def Get_TensorSeq_def GetMutable_TensorSeq_def
        Get_SparseTensor_def GetMutable_SparseTensor_def IsTensor_def IsTensorSequence_def
        IsSparseTensor_def)
  have h9: "\<forall>t. type_m (objs s this) = Some t \<and> IsTensorSequenceType t \<longrightarrow>
      Get_Tensor s this = Inl (TypeMismatch ATensor (Some t)) \<and>
      GetMutable_Tensor s this = Inl (TypeMismatch ATensor (Some t)) \<and>
      Get_SparseTensor s this = Inl (TypeMismatch ASparseTensor (Some t)) \<and>
      GetMutable_SparseTensor s this = Inl (TypeMismatch ASparseTensor (Some t)) \<and>
      IsTensorSequence s this \<and>
      (well_formed s this \<longrightarrow>
        (\<exists>p. sp_get s (data_m (objs s this)) = Some p \<and>
             Get_TensorSeq s this = Inr p \<and> GetMutable_TensorSeq s this = Inr (Some p)))"
    by (auto simp: well_formed_def IsTensorType_def IsTensorSequenceType_def IsSparseTensorType_def
        Get_Tensor_def GetMutable_Tensor_def Get_TensorSeq_def GetMutable_TensorSeq_def
        Get_SparseTensor_def GetMutable_SparseTensor_def IsTensor_def IsTensorSequence_def
        IsSparseTensor_def)
  have h10: "IsTensor s this \<longrightarrow>
      GetMutable_Tensor s this = Inr (sp_get s (data_m (objs s this))) \<and>
      (\<forall>p. sp_get s (data_m (objs s this)) = Some p \<longrightarrow> Get_Tensor s this = Inr p)"
    by (simp add: Get_Tensor_def GetMutable_Tensor_def Get_TensorSeq_def GetMutable_TensorSeq_def
        Get_SparseTensor_def GetMutable_SparseTensor_def IsTensor_def IsTensorSequence_def
        IsSparseTensor_def)
  have h11: "IsTensorSequence s this \<longrightarrow>
      GetMutable_TensorSeq s this = Inr (sp_get s (data_m (objs s this))) \<and>
      (\<forall>p. sp_get s (data_m (objs s this)) = Some p \<longrightarrow> Get_TensorSeq s this = Inr p)"
    by (simp add: Get_Tensor_def GetMutable_Tensor_def Get_TensorSeq_def GetMutable_TensorSeq_def
        Get_SparseTensor_def GetMutable_SparseTensor_def IsTensor_def IsTensorSequence_def
        IsSparseTensor_def)
  have h12: "IsSparseTensor s this \<longrightarrow>
      GetMutable_SparseTensor s this = Inr (sp_get s (data_m (objs s this))) \<and>
      (\<forall>p. sp_get s (data_m (objs s this)) = Some p \<longrightarrow> Get_SparseTensor s this = Inr p)"
    by (simp add: Get_Tensor_def GetMutable_Tensor_def Get_TensorSeq_def GetMutable_TensorSeq_def
        Get_SparseTensor_def GetMutable_SparseTensor_def IsTensor_def IsTensorSequence_def
        IsSparseTensor_def)
  show ?thesis
    using h1 h2 h3 h4 h5 h6 h7 h8 h9 h10 h11 h12 by blast
qed

text \<open>
  A sparse tensor fails the Tensor and the TensorSeq accessors and is returned by the
  SparseTensor accessor; a dense tensor is returned by the Tensor accessor and fails the
  SparseTensor one.
\<close>

theorem family_accessors_checked_witness:
  "Get_Tensor (OrtValue_init heap0 0 (Some 100) (Some sparse_int32) 7) 0 =
     Inl (TypeMismatch ATensor (Some sparse_int32))
   \<and> GetMutable_TensorSeq (OrtValue_init heap0 0 (Some 100) (Some sparse_int32) 7) 0 =
     Inl (TypeMismatch ATensorSeq (Some sparse_int32))
   \<and> Get_SparseTensor (OrtValue_init heap0 0 (Some 100) (Some sparse_int32) 7) 0 = Inr 100
   \<and> Get_Tensor (OrtValue_init heap0 0 (Some 100) (Some tensor_float) 7) 0 = Inr 100
   \<and> Get_SparseTensor (OrtValue_init heap0 0 (Some 100) (Some tensor_float) 7) 0 =
     Inl (TypeMismatch ASparseTensor (Some tensor_float))"
proof -
  let ?s = "OrtValue_init heap0 0 (Some 100) (Some sparse_int32) 7"
  let ?d = "OrtValue_init heap0 0 (Some 100) (Some tensor_float) 7"
  have ts: "type_m (objs ?s 0) = Some sparse_int32" by (simp add: OrtValue_init_objs)
  have td: "type_m (objs ?d 0) = Some tensor_float" by (simp add: OrtValue_init_objs)
  have fs: "IsSparseTensorType sparse_int32"
    by (simp add: IsSparseTensorType_def sparse_int32_def)
  have fd: "IsTensorType tensor_float"
    by (simp add: IsTensorType_def tensor_float_def)
  have ws: "well_formed ?s 0" by (simp add: well_formed_Init)
  have wd: "well_formed ?d 0" by (simp add: well_formed_Init)
  have ps: "sp_get ?s (data_m (objs ?s 0)) = Some 100" by (simp add: run_defs)
  have pd: "sp_get ?d (data_m (objs ?d 0)) = Some 100" by (simp add: run_defs)
  note a = family_accessors_checked [of ?s 0]
  note b = family_accessors_checked [of ?d 0]
  have "\<forall>t. type_m (objs ?s 0) = Some t \<and> IsSparseTensorType t \<longrightarrow>
      Get_Tensor ?s 0 = Inl (TypeMismatch ATensor (Some t)) \<and>
      GetMutable_Tensor ?s 0 = Inl (TypeMismatch ATensor (Some t)) \<and>
      Get_TensorSeq ?s 0 = Inl (TypeMismatch ATensorSeq (Some t)) \<and>
      GetMutable_TensorSeq ?s 0 = Inl (TypeMismatch ATensorSeq (Some t)) \<and>
      IsSparseTensor ?s 0 \<and>
      (well_formed ?s 0 \<longrightarrow>
        (\<exists>p. sp_get ?s (data_m (objs ?s 0)) = Some p \<and>
             Get_SparseTensor ?s 0 = Inr p \<and> GetMutable_SparseTensor ?s 0 = Inr (Some p)))"
    using a by blast
  then have r1: "Get_Tensor ?s 0 = Inl (TypeMismatch ATensor (Some sparse_int32))"
    and r2: "GetMutable_TensorSeq ?s 0 = Inl (TypeMismatch ATensorSeq (Some sparse_int32))"
    and "\<exists>p. sp_get ?s (data_m (objs ?s 0)) = Some p \<and>
             Get_SparseTensor ?s 0 = Inr p \<and> GetMutable_SparseTensor ?s 0 = Inr (Some p)"
    using ts fs ws by blast+
  then obtain p where "sp_get ?s (data_m (objs ?s 0)) = Some p"
    and "Get_SparseTensor ?s 0 = Inr p"
    by auto
  then have r3: "Get_SparseTensor ?s 0 = Inr 100" using ps by simp
  have "\<forall>t. type_m (objs ?d 0) = Some t \<and> IsTensorType t \<longrightarrow>
      Get_TensorSeq ?d 0 = Inl (TypeMismatch ATensorSeq (Some t)) \<and>
      GetMutable_TensorSeq ?d 0 = Inl (TypeMismatch ATensorSeq (Some t)) \<and>
      Get_SparseTensor ?d 0 = Inl (TypeMismatch ASparseTensor (Some t)) \<and>
      GetMutable_SparseTensor ?d 0 = Inl (TypeMismatch ASparseTensor (Some t)) \<and>
      IsTensor ?d 0"
    using b by blast
  then have r5: "Get_SparseTensor ?d 0 = Inl (TypeMismatch ASparseTensor (Some tensor_float))"
    and it: "IsTensor ?d 0"
    using td fd by blast+
  have "well_formed ?d 0 \<and> IsTensor ?d 0 \<longrightarrow>
      (\<exists>p. sp_get ?d (data_m (objs ?d 0)) = Some p \<and>
           Get_Tensor ?d 0 = Inr p \<and> GetMutable_Tensor ?d 0 = Inr (Some p))"
    using b by blast
  then obtain q where "sp_get ?d (data_m (objs ?d 0)) = Some q"
    and "Get_Tensor ?d 0 = Inr q"
    using wd it by auto
  then have r4: "Get_Tensor ?d 0 = Inr 100" using pd by simp
  show ?thesis using r1 r2 r3 r4 r5 by simp
qed

subsection \<open>C5: the queries on an unallocated container\<close>

text \<open>
  C5. \<^verbatim>\<open>IsAllocated()\<close> is true exactly when the loaded payload pointer and the identity
  are both non-null. On a default-constructed container, and on every container whose
  identity is null, \<^verbatim>\<open>IsAllocated()\<close>, \<^verbatim>\<open>IsTensor()\<close>, \<^verbatim>\<open>IsTensorSequence()\<close> and
  \<^verbatim>\<open>IsSparseTensor()\<close> all return false. On a container with a null payload and a
  non-null identity \<^verbatim>\<open>IsAllocated()\<close> is false and each of the three predicates returns
  what the identity answers for its family. The four queries are total: they return a
  truth value on every container.
\<close>

theorem unallocated_queries:
  "IsAllocated s this = (sp_get s (data_m (objs s this)) \<noteq> None \<and> type_m (objs s this) \<noteq> None)
   \<and> (\<not> IsAllocated (OrtValue_default s this) this \<and> \<not> IsTensor (OrtValue_default s this) this
        \<and> \<not> IsTensorSequence (OrtValue_default s this) this
        \<and> \<not> IsSparseTensor (OrtValue_default s this) this)
   \<and> (type_m (objs s this) = None \<longrightarrow>
        \<not> IsAllocated s this \<and> \<not> IsTensor s this \<and> \<not> IsTensorSequence s this
        \<and> \<not> IsSparseTensor s this)
   \<and> (\<forall>t. sp_get s (data_m (objs s this)) = None \<and> type_m (objs s this) = Some t \<longrightarrow>
        \<not> IsAllocated s this \<and> IsTensor s this = IsTensorType t
        \<and> IsTensorSequence s this = IsTensorSequenceType t
        \<and> IsSparseTensor s this = IsSparseTensorType t)"
  by (simp add: IsAllocated_def IsTensor_def IsTensorSequence_def IsSparseTensor_def
      OrtValue_default_def)

text \<open>
  The claim as written counts a container with a null payload as unallocated and has the
  three predicates false on it. The predicates read the identity only: the container
  \<^verbatim>\<open>OrtValue(nullptr, type, deleter)\<close> with a tensor identity is not allocated and
  \<^verbatim>\<open>IsTensor()\<close> is true on it.
\<close>

theorem unallocated_queries_counterexample:
  "sp_get (OrtValue_init heap0 0 None (Some tensor_float) 7)
      (data_m (objs (OrtValue_init heap0 0 None (Some tensor_float) 7) 0)) = None
   \<and> \<not> IsAllocated (OrtValue_init heap0 0 None (Some tensor_float) 7) 0
   \<and> IsTensor (OrtValue_init heap0 0 None (Some tensor_float) 7) 0"
  by (simp add: IsAllocated_def IsTensor_def run_defs)

theorem unallocated_queries_witness:
  "\<not> IsAllocated heap0 0 \<and> \<not> IsTensor heap0 0 \<and> \<not> IsSparseTensor heap0 0
   \<and> \<not> IsAllocated (OrtValue_init heap0 0 None (Some sparse_int32) 7) 0
   \<and> IsSparseTensor (OrtValue_init heap0 0 None (Some sparse_int32) 7) 0
   \<and> \<not> IsTensor (OrtValue_init heap0 0 None (Some sparse_int32) 7) 0"
  using unallocated_queries [of heap0 0]
    unallocated_queries [of "OrtValue_init heap0 0 None (Some sparse_int32) 7" 0]
  by (simp add: run_defs)

subsection \<open>C6: Init with a null payload and a null identity\<close>

text \<open>
  C6. After \<^verbatim>\<open>Init(nullptr, nullptr, d)\<close>, or construction with these arguments, the
  container is not allocated and every typed accessor returns on it what it returns on a
  default-constructed container: a TypeMismatch against the null identity for every type
  whose identity is not null. The container is not empty, though: it owns a control block
  for the null pointer, and when it and all its copies are destroyed, in any order, the
  deleter \<open>d\<close> is called exactly once, with the null pointer, at the last destructor.
\<close>

theorem Init_null_calls_deleter:
  assumes "s1 = OrtValue_init s0 a None None deleter
         \<or> (handle_exists s0 (data_m (objs s0 a)) \<and> s1 = Init s0 a None None deleter)"
    and "copies_of [a] cs"
    and "distinct ord"
    and "set ord = set (a # copy_addrs cs)"
  shows "\<not> IsAllocated s1 a
       \<and> Get GetType T s1 a = Get GetType T (OrtValue_default s0 a) a
       \<and> GetMutable GetType T s1 a = GetMutable GetType T (OrtValue_default s0 a) a
       \<and> Get_Tensor s1 a = Get_Tensor (OrtValue_default s0 a) a
       \<and> GetMutable_Tensor s1 a = GetMutable_Tensor (OrtValue_default s0 a) a
       \<and> Get_TensorSeq s1 a = Get_TensorSeq (OrtValue_default s0 a) a
       \<and> GetMutable_TensorSeq s1 a = GetMutable_TensorSeq (OrtValue_default s0 a) a
       \<and> Get_SparseTensor s1 a = Get_SparseTensor (OrtValue_default s0 a) a
       \<and> GetMutable_SparseTensor s1 a = GetMutable_SparseTensor (OrtValue_default s0 a) a
       \<and> (GetType T \<noteq> None \<longrightarrow>
            Get GetType T s1 a = Inl (TypeMismatch (Exact (GetType T)) None)
            \<and> GetMutable GetType T s1 a = Inl (TypeMismatch (Exact (GetType T)) None))
       \<and> calls (destroy_all (copy_all s1 cs) ord) = calls s1 @ [(deleter, None)]
       \<and> (\<forall>k < length ord. calls (destroy_all (copy_all s1 cs) (take k ord)) = calls s1)"
proof -
  note b = built_owned [OF assms(1)]
  have o: "owned_by s1 (fresh s0) [a]" using b by simp
  have d: "data_m (objs s1 a) = Some (fresh s0)" using o by (simp add: owned_by_def)
  have t: "type_m (objs s1 a) = None"
    using assms(1) by (auto simp: OrtValue_init_objs Init_objs)
  have g: "sp_get s1 (data_m (objs s1 a)) = None" using b d by (simp add: sp_get_def)
  have e: "type_m (objs (OrtValue_default s0 a) a) = None"
    "sp_get (OrtValue_default s0 a) (data_m (objs (OrtValue_default s0 a) a)) = None"
    by (simp_all add: OrtValue_default_def sp_get_def)
  have acc: "\<not> IsAllocated s1 a
       \<and> Get GetType T s1 a = Get GetType T (OrtValue_default s0 a) a
       \<and> GetMutable GetType T s1 a = GetMutable GetType T (OrtValue_default s0 a) a
       \<and> Get_Tensor s1 a = Get_Tensor (OrtValue_default s0 a) a
       \<and> GetMutable_Tensor s1 a = GetMutable_Tensor (OrtValue_default s0 a) a
       \<and> Get_TensorSeq s1 a = Get_TensorSeq (OrtValue_default s0 a) a
       \<and> GetMutable_TensorSeq s1 a = GetMutable_TensorSeq (OrtValue_default s0 a) a
       \<and> Get_SparseTensor s1 a = Get_SparseTensor (OrtValue_default s0 a) a
       \<and> GetMutable_SparseTensor s1 a = GetMutable_SparseTensor (OrtValue_default s0 a) a
       \<and> (GetType T \<noteq> None \<longrightarrow>
            Get GetType T s1 a = Inl (TypeMismatch (Exact (GetType T)) None)
            \<and> GetMutable GetType T s1 a = Inl (TypeMismatch (Exact (GetType T)) None))"
    by (simp add: t g e IsAllocated_def Get_def GetMutable_def Get_Tensor_def GetMutable_Tensor_def
        Get_TensorSeq_def GetMutable_TensorSeq_def Get_SparseTensor_def GetMutable_SparseTensor_def
        IsTensor_def IsTensorSequence_def IsSparseTensor_def)
  have run: "calls (destroy_all (copy_all s1 cs) ord) = calls s1 @ [(deleter, None)]
       \<and> (\<forall>k < length ord. calls (destroy_all (copy_all s1 cs) (take k ord)) = calls s1)"
    using run_calls [OF o assms(2) assms(3) assms(4)] b by simp
  show ?thesis using acc run by blast
qed

text \<open>
  The claim as written has no deleter call when the container and its copies are
  destroyed, as for empty containers. Destroying the container and one copy calls the
  deleter 7 on the null pointer; destroying a default-constructed container and its copy
  calls nothing.
\<close>

theorem Init_null_counterexample:
  "calls (destroy_all
      (copy_all (Init (OrtValue_default heap0 0) 0 None None 7) [(By_constructor, 1, 0)])
      [0, 1]) = [(7, None)]
   \<and> calls (destroy_all
      (copy_all (OrtValue_default heap0 0) [(By_constructor, 1, 0)])
      [0, 1]) = []"
  by (simp add: run_defs)

theorem Init_null_calls_deleter_witness:
  "\<not> IsAllocated (OrtValue_init heap0 0 None None 7) 0
   \<and> Get GetType_ex 1 (OrtValue_init heap0 0 None None 7) 0 =
       Inl (TypeMismatch (Exact (Some tensor_float)) None)
   \<and> calls (destroy_all
       (copy_all (OrtValue_init heap0 0 None None 7)
          [(By_constructor, 1, 0), (By_move_assign, 2, 1)])
       [1, 2, 0]) = [(7, None)]
   \<and> calls (destroy_all
       (copy_all (OrtValue_init heap0 0 None None 7)
          [(By_constructor, 1, 0), (By_move_assign, 2, 1)])
       [1, 2]) = []"
proof -
  let ?s1 = "OrtValue_init heap0 0 None None 7"
  let ?cs = "[(By_constructor, 1, 0), (By_move_assign, 2, 1)]"
  have c: "copies_of [0] ?cs" by simp
  have d: "distinct [1, 2, 0::nat]" by simp
  have e: "set [1, 2, 0::nat] = set (0 # copy_addrs ?cs)" by auto
  have k: "(2::nat) < length [1, 2, 0::nat]" by simp
  have z: "calls ?s1 = []" by (simp add: run_defs)
  have n: "GetType_ex 1 \<noteq> None" "GetType_ex 1 = Some tensor_float" by (simp_all add: GetType_ex_def)
  note t = Init_null_calls_deleter [of ?s1 heap0 0 7 ?cs "[1, 2, 0]" GetType_ex 1, OF _ c d e]
  have t0: "\<not> IsAllocated ?s1 0" using t by simp
  have "GetType_ex 1 \<noteq> None \<longrightarrow>
      Get GetType_ex 1 ?s1 0 = Inl (TypeMismatch (Exact (GetType_ex 1)) None)
      \<and> GetMutable GetType_ex 1 ?s1 0 = Inl (TypeMismatch (Exact (GetType_ex 1)) None)"
    using t by blast
  then have t1: "Get GetType_ex 1 ?s1 0 = Inl (TypeMismatch (Exact (Some tensor_float)) None)"
    using n by simp
  have t2: "calls (destroy_all (copy_all ?s1 ?cs) [1, 2, 0]) = calls ?s1 @ [(7, None)]"
    using t by simp
  have "calls (destroy_all (copy_all ?s1 ?cs) (take 2 [1, 2, 0])) = calls ?s1"
    using t k by blast
  then have t3: "calls (destroy_all (copy_all ?s1 ?cs) [1, 2]) = calls ?s1"
    by simp
  show ?thesis using t0 t1 t2 t3 z by simp
qed

subsection \<open>C7: what changes the identity of a container\<close>

text \<open>
  C7. A call on a constructed container that is neither an assignment from another
  container nor Init leaves its identity as it was: the queries, the typed accessors,
  \<^verbatim>\<open>Type\<close>, \<^verbatim>\<open>Fence\<close>, \<^verbatim>\<open>SetFence\<close> and \<^verbatim>\<open>ShareFenceWith\<close>. Nothing done to another
  container changes it either: no call on the other container, Init and the assignments
  included, and neither its construction nor its destruction.
\<close>

theorem identity_stable:
  "(\<not> is_assignment c \<and> \<not> is_Init c \<longrightarrow> Type (exec s this c) this = Type s this)
   \<and> (that \<noteq> this \<longrightarrow>
        Type (exec s that c) this = Type s this
        \<and> Type (OrtValue_default s that) this = Type s this
        \<and> Type (OrtValue_init s that pData type deleter) this = Type s this
        \<and> Type (OrtValue_copy s that v) this = Type s this
        \<and> Type (OrtValue_dtor s that) this = Type s this)"
proof -
  have 1: "\<not> is_assignment c \<and> \<not> is_Init c \<longrightarrow> Type (exec s this c) this = Type s this"
    by (cases c) (simp_all add: Type_def SetFence_def ShareFenceWith_def)
  have 2: "that \<noteq> this \<Longrightarrow> Type (exec s that c) this = Type s this"
    by (cases c)
      (simp_all add: Type_def SetFence_def ShareFenceWith_def Init_objs copy_assign_objs
        move_assign_objs)
  have 3: "that \<noteq> this \<Longrightarrow> Type (OrtValue_default s that) this = Type s this"
    by (simp add: Type_def OrtValue_default_def)
  have 4: "that \<noteq> this \<Longrightarrow> Type (OrtValue_init s that pData type deleter) this = Type s this"
    by (simp add: Type_def OrtValue_init_objs)
  have 5: "that \<noteq> this \<Longrightarrow> Type (OrtValue_copy s that v) this = Type s this"
    by (simp add: Type_def OrtValue_copy_def Let_def atomic_store_objs)
  have 6: "that \<noteq> this \<Longrightarrow> Type (OrtValue_dtor s that) this = Type s this"
    by (simp add: Type_def dtor_objs)
  show ?thesis using 1 2 3 4 5 6 by blast
qed

text \<open>
  The claim as written allows only the assignments to change the identity. Init is a
  public member function, it is not an assignment, and on a container constructed with
  the identity of a dense tensor it installs the identity it is given.
\<close>

theorem identity_stable_counterexample:
  "Type (OrtValue_init heap0 0 (Some 100) (Some tensor_float) 7) 0 = Some tensor_float
   \<and> \<not> is_assignment (Call_Init (Some 200) (Some map_string) 8 :: nat call)
   \<and> Type (exec (OrtValue_init heap0 0 (Some 100) (Some tensor_float) 7) 0
         (Call_Init (Some 200) (Some map_string) 8 :: nat call)) 0 = Some map_string
   \<and> Some map_string \<noteq> Some tensor_float"
  by (simp add: Type_def OrtValue_init_objs Init_objs tensor_float_def map_string_def)

theorem identity_stable_witness:
  "Type (exec (OrtValue_init heap0 0 (Some 100) (Some tensor_float) 7) 0
      (Call_SetFence (Some 50) :: nat call)) 0 = Some tensor_float
   \<and> Type (exec (OrtValue_init heap0 0 (Some 100) (Some tensor_float) 7) 1
      (Call_Init (Some 200) (Some map_string) 8 :: nat call)) 0 = Some tensor_float"
  using identity_stable [of "Call_SetFence (Some 50) :: nat call"
      "OrtValue_init heap0 0 (Some 100) (Some tensor_float) 7" 0 0]
    identity_stable [of "Call_Init (Some 200) (Some map_string) 8 :: nat call"
      "OrtValue_init heap0 0 (Some 100) (Some tensor_float) 7" 0 1]
  by (simp add: Type_def OrtValue_init_objs)

subsection \<open>C8: sharing a fence\<close>

text \<open>
  C8. After \<^verbatim>\<open>A.ShareFenceWith(B)\<close> the calls \<^verbatim>\<open>A.Fence()\<close> and \<^verbatim>\<open>B.Fence()\<close> return
  the same handle, the one \<open>B\<close> had, whatever payload and identity the two containers
  hold and also when they are the same container. The call changes the payload handle
  and the identity of neither, touches no control block and calls no deleter.
\<close>

theorem ShareFenceWith_same_fence:
  "Fence (ShareFenceWith s a b) a = Fence (ShareFenceWith s a b) b
   \<and> Fence (ShareFenceWith s a b) b = Fence s b
   \<and> data_m (objs (ShareFenceWith s a b) a) = data_m (objs s a)
   \<and> type_m (objs (ShareFenceWith s a b) a) = type_m (objs s a)
   \<and> data_m (objs (ShareFenceWith s a b) b) = data_m (objs s b)
   \<and> type_m (objs (ShareFenceWith s a b) b) = type_m (objs s b)
   \<and> blocks (ShareFenceWith s a b) = blocks s
   \<and> calls (ShareFenceWith s a b) = calls s
   \<and> IsAllocated (ShareFenceWith s a b) a = IsAllocated s a
   \<and> IsAllocated (ShareFenceWith s a b) b = IsAllocated s b"
  by (simp add: ShareFenceWith_def Fence_def IsAllocated_def sp_get_def split: option.splits)

text \<open>An empty container adopts the fence 50 of an allocated one.\<close>

theorem ShareFenceWith_same_fence_witness:
  "Fence (ShareFenceWith (SetFence (OrtValue_init heap0 0 (Some 100) (Some tensor_float) 7) 0 (Some 50))
      1 0) 1 = Some 50
   \<and> Fence (ShareFenceWith (SetFence (OrtValue_init heap0 0 (Some 100) (Some tensor_float) 7) 0 (Some 50))
      1 0) 0 = Some 50"
proof -
  let ?s = "SetFence (OrtValue_init heap0 0 (Some 100) (Some tensor_float) 7) 0 (Some 50)"
  have f: "Fence ?s 0 = Some 50" by (simp add: Fence_def SetFence_def)
  show ?thesis using ShareFenceWith_same_fence [of ?s 1 0] f by simp
qed

subsection \<open>C9: self-assignment\<close>

text \<open>
  C9. Assigning a container to itself, by copy or by move, leaves the whole store as it
  was: the container's payload handle, identity and fence, every reference count, and the
  log of deleter calls.
\<close>

theorem self_assignment_noop:
  "copy_assign s c c = s \<and> move_assign s c c = s"
  by (simp add: copy_assign_def move_assign_def)

theorem self_assignment_noop_witness:
  "calls (copy_assign (OrtValue_init heap0 0 (Some 100) (Some tensor_float) 7) 0 0) = []
   \<and> use_count (blocks (move_assign (OrtValue_init heap0 0 (Some 100) (Some tensor_float) 7) 0 0) 0) = 1"
proof -
  let ?s = "OrtValue_init heap0 0 (Some 100) (Some tensor_float) 7"
  have e: "calls ?s = []" "use_count (blocks ?s 0) = 1" by (simp_all add: run_defs)
  show ?thesis using self_assignment_noop [of ?s 0] e by simp
qed

subsection \<open>C10: move assignment is copy assignment\<close>

text \<open>
  C10. \<^verbatim>\<open>C = std::move(V)\<close> leaves the same store as \<^verbatim>\<open>C = V\<close>. The destination has
  the payload handle, the identity and the fence of the source; the source keeps all
  three, and \<^verbatim>\<open>IsAllocated()\<close> on it answers as before. Ownership is shared: when the two
  are distinct containers and the destination did not already hold the source's control
  block, that block has one more owner afterwards.
\<close>

theorem move_assign_copies:
  "move_assign s c v = copy_assign s c v
   \<and> data_m (objs (move_assign s c v) c) = data_m (objs s v)
   \<and> type_m (objs (move_assign s c v) c) = type_m (objs s v)
   \<and> fence_m (objs (move_assign s c v) c) = fence_m (objs s v)
   \<and> objs (move_assign s c v) v = objs s v
   \<and> sp_get (move_assign s c v) (data_m (objs (move_assign s c v) v)) = sp_get s (data_m (objs s v))
   \<and> IsAllocated (move_assign s c v) v = IsAllocated s v
   \<and> IsAllocated (move_assign s c v) c = IsAllocated s v
   \<and> (\<forall>b. c \<noteq> v \<and> data_m (objs s v) = Some b \<and> data_m (objs s c) \<noteq> Some b \<longrightarrow>
        use_count (blocks (move_assign s c v) b) = Suc (use_count (blocks s b)))"
  by (simp add: move_assign_is_copy_assign copy_assign_objs copy_assign_sp_get IsAllocated_def
      assign_step)

text \<open>A default-constructed container is move-assigned from an allocated one.\<close>

theorem move_assign_copies_witness:
  "IsAllocated
     (move_assign (OrtValue_default (OrtValue_init heap0 0 (Some 100) (Some tensor_float) 7) 1) 1 0) 0
   \<and> IsAllocated
     (move_assign (OrtValue_default (OrtValue_init heap0 0 (Some 100) (Some tensor_float) 7) 1) 1 0) 1
   \<and> use_count (blocks
       (move_assign (OrtValue_default (OrtValue_init heap0 0 (Some 100) (Some tensor_float) 7) 1) 1 0)
       0) = 2"
proof -
  let ?s = "OrtValue_default (OrtValue_init heap0 0 (Some 100) (Some tensor_float) 7) 1"
  have e: "IsAllocated ?s 0" "use_count (blocks ?s 0) = 1" "data_m (objs ?s 0) = Some 0"
    "data_m (objs ?s 1) \<noteq> Some 0"
    by (simp_all add: IsAllocated_def run_defs)
  note t = move_assign_copies [of ?s 1 0]
  have t1: "IsAllocated (move_assign ?s 1 0) 0 = IsAllocated ?s 0" using t by blast
  have t2: "IsAllocated (move_assign ?s 1 0) 1 = IsAllocated ?s 0" using t by blast
  have "\<forall>b. (1::nat) \<noteq> 0 \<and> data_m (objs ?s 0) = Some b \<and> data_m (objs ?s 1) \<noteq> Some b \<longrightarrow>
      use_count (blocks (move_assign ?s 1 0) b) = Suc (use_count (blocks ?s b))"
    using t by blast
  then have t3: "use_count (blocks (move_assign ?s 1 0) 0) = Suc (use_count (blocks ?s 0))"
    using e(3) e(4) by blast
  show ?thesis using t1 t2 t3 e(1) e(2) by simp
qed

end
